theory Spec2Isabelle
  imports Complex_Main "HOL-Library.Sublist"
begin

section \<open>JavaScript values used by the service module\<close>

text \<open>
  A JavaScript string is a sequence of UTF-16 code units. Every literal of the sources lies
  in the Basic Multilingual Plane, so each of its characters is one code unit, written here
  as its number.
\<close>

type_synonym jsstring = "nat list"

definition ascii :: "string \<Rightarrow> jsstring" where
  "ascii s = map of_char s"

text \<open>\<^verbatim>\<open>String.prototype.includes\<close>: the argument occurs as a contiguous run of code units.\<close>

definition includes_js :: "jsstring \<Rightarrow> jsstring \<Rightarrow> bool" where
  "includes_js s k = sublist k s"

text \<open>\<^verbatim>\<open>String.prototype.startsWith\<close>.\<close>

definition startsWith :: "jsstring \<Rightarrow> jsstring \<Rightarrow> bool" where
  "startsWith s k = prefix k s"

text \<open>
  What a template literal \<^verbatim>\<open>${x}\<close> inserts for a value that is a string or
  \<^verbatim>\<open>undefined\<close>.
\<close>

definition template :: "jsstring option \<Rightarrow> jsstring" where
  "template v = (case v of None \<Rightarrow> ascii ''undefined'' | Some s \<Rightarrow> s)"

text \<open>Truthiness of a value that is a string, \<^verbatim>\<open>null\<close> or \<^verbatim>\<open>undefined\<close>.\<close>

definition truthy :: "jsstring option \<Rightarrow> bool" where
  "truthy v = (case v of None \<Rightarrow> False | Some s \<Rightarrow> s \<noteq> [])"

text \<open>The decimal digits of a natural number, as \<^verbatim>\<open>toString\<close> prints an integer.\<close>

fun showNat :: "nat \<Rightarrow> jsstring" where
  "showNat n = (if n < 10 then [48 + n] else showNat (n div 10) @ [48 + n mod 10])"

declare showNat.simps [simp del]

datatype error = ApiError jsstring | NoImageGenerated | TypeError | ReadError

section \<open>Responses of the hosted model\<close>

text \<open>
  The fields of the vendor SDK's response objects that the service module reads. An optional
  field is an \<open>option\<close>; \<open>resp_text\<close> is the value of the SDK's \<^verbatim>\<open>text\<close> getter.
\<close>

record web_source =
  web_title :: "jsstring option"
  web_uri :: "jsstring option"

record grounding_chunk =
  web :: "web_source option"

record grounding_metadata =
  groundingChunks :: "grounding_chunk list option"

record inline_data =
  mimeType :: "jsstring option"
  data :: "jsstring option"

record function_call =
  fc_name :: "jsstring option"
  fc_args :: "(jsstring \<rightharpoonup> jsstring) option"

record part =
  part_text :: "jsstring option"
  inlineData :: "inline_data option"
  functionCall :: "function_call option"

record content =
  parts :: "part list option"

record candidate =
  cand_content :: "content option"
  groundingMetadata :: "grounding_metadata option"

record response =
  candidates :: "candidate list option"
  resp_text :: "jsstring option"

text \<open>\<^verbatim>\<open>response.candidates?.[0]\<close>\<close>

definition candidate0 :: "response \<Rightarrow> candidate option" where
  "candidate0 r = (case candidates r of None \<Rightarrow> None | Some [] \<Rightarrow> None | Some (c # _) \<Rightarrow> Some c)"

text \<open>\<^verbatim>\<open>response.candidates?.[0]?.content?.parts\<close>\<close>

definition parts0 :: "response \<Rightarrow> part list option" where
  "parts0 r = (case candidate0 r of None \<Rightarrow> None
     | Some c \<Rightarrow> (case cand_content c of None \<Rightarrow> None | Some ct \<Rightarrow> parts ct))"

text \<open>\<^verbatim>\<open>response.candidates?.[0]?.groundingMetadata?.groundingChunks\<close>\<close>

definition groundingChunks0 :: "response \<Rightarrow> grounding_chunk list option" where
  "groundingChunks0 r = (case candidate0 r of None \<Rightarrow> None
     | Some c \<Rightarrow> (case groundingMetadata c of None \<Rightarrow> None | Some m \<Rightarrow> groundingChunks m))"

section \<open>JavaScript numbers\<close>

text \<open>
  A number is \<^verbatim>\<open>NaN\<close>, an infinity or a finite value, which is a rational (every double
  is one). The sign of zero is not modelled.
\<close>

datatype jsnum = NaN | PosInf | NegInf | Fin rat

fun js_lt :: "jsnum \<Rightarrow> jsnum \<Rightarrow> bool" where
  "js_lt NaN _ = False"
| "js_lt _ NaN = False"
| "js_lt (Fin a) (Fin b) = (a < b)"
| "js_lt PosInf _ = False"
| "js_lt _ PosInf = True"
| "js_lt _ NegInf = False"
| "js_lt NegInf _ = True"

definition js_le :: "jsnum \<Rightarrow> jsnum \<Rightarrow> bool" where
  "js_le x y = (x \<noteq> NaN \<and> y \<noteq> NaN \<and> (x = y \<or> js_lt x y))"

definition js_negative :: "jsnum \<Rightarrow> bool" where
  "js_negative x = (case x of NegInf \<Rightarrow> True | Fin a \<Rightarrow> a < 0 | _ \<Rightarrow> False)"

text \<open>
  The operator \<^verbatim>\<open>*\<close> on finite numbers gives the exact product rounded to the nearest
  binary64 value, ties to the even significand, and an infinity beyond the largest finite
  value. \<open>bitlen n\<close> is the number of binary digits of \<open>n\<close>, \<open>pow2 e\<close> is \<open>2\<^sup>e\<close>, and
  \<open>binade q\<close> is the exponent \<open>e\<close> with \<open>2\<^sup>e \<le> q < 2\<^sup>e\<^sup>+\<^sup>1\<close>. The spacing of the doubles
  around \<open>q\<close> is \<open>2\<close> to the power \<open>max e (-1022) - 52\<close>, which covers the subnormal numbers.
\<close>

function bitlen :: "int \<Rightarrow> int" where
  "bitlen n = (if n \<le> 0 then 0 else 1 + bitlen (n div 2))"
  by pat_completeness auto
termination
  by (relation "measure nat") auto

declare bitlen.simps [simp del]

function pow2n :: "int \<Rightarrow> rat" where
  "pow2n e =
     (if e \<le> 0 then 1
      else (let h = pow2n (e div 2) in if even e then h * h else 2 * h * h))"
  by pat_completeness auto
termination
  by (relation "measure nat") auto

declare pow2n.simps [simp del]

definition pow2 :: "int \<Rightarrow> rat" where
  "pow2 e = (if 0 \<le> e then pow2n e else 1 / pow2n (- e))"

definition binade :: "rat \<Rightarrow> int" where
  "binade q =
     (let (a, b) = quotient_of q;
          e = bitlen a - bitlen b
      in if pow2 e \<le> q then e else e - 1)"

definition roundHalfEven :: "rat \<Rightarrow> int" where
  "roundHalfEven m =
     (let f = \<lfloor>m\<rfloor>; d = m - of_int f
      in if d < 1 / 2 then f else if 1 / 2 < d then f + 1 else if even f then f else f + 1)"

definition roundToDouble :: "rat \<Rightarrow> jsnum" where
  "roundToDouble q =
     (if q = 0 then Fin 0
      else
        (let p = max (binade \<bar>q\<bar>) (- 1022) - 52;
             r = of_int (roundHalfEven (q / pow2 p)) * pow2 p
         in if pow2 1024 \<le> \<bar>r\<bar> then (if 0 < q then PosInf else NegInf) else Fin r))"

text \<open>The operator \<^verbatim>\<open>*\<close>.\<close>

definition js_times :: "jsnum \<Rightarrow> jsnum \<Rightarrow> jsnum" where
  "js_times x y =
     (case (x, y) of
        (Fin a, Fin b) \<Rightarrow> roundToDouble (a * b)
      | _ \<Rightarrow> if x = NaN \<or> y = NaN \<or> x = Fin 0 \<or> y = Fin 0 then NaN
             else if js_negative x = js_negative y then PosInf else NegInf)"

definition Math_floor :: "jsnum \<Rightarrow> jsnum" where
  "Math_floor x = (case x of Fin a \<Rightarrow> Fin (of_int \<lfloor>a\<rfloor>) | _ \<Rightarrow> x)"

definition Math_max :: "jsnum \<Rightarrow> jsnum \<Rightarrow> jsnum" where
  "Math_max x y = (if x = NaN \<or> y = NaN then NaN else if js_lt x y then y else x)"

text \<open>\<^verbatim>\<open>videoRef.current?.duration || 0\<close>: no element, \<^verbatim>\<open>NaN\<close> and zero all give zero.\<close>

definition orZero :: "jsnum option \<Rightarrow> jsnum" where
  "orZero v = (case v of None \<Rightarrow> Fin 0 | Some NaN \<Rightarrow> Fin 0 | Some x \<Rightarrow> x)"

text \<open>
  The built-in conversions the prompts go through are parameters of the model:
  \<^verbatim>\<open>Number.prototype.toFixed(1)\<close>, the conversion of a number to a string inside a template
  literal, and \<^verbatim>\<open>String.prototype.toLowerCase\<close>.
\<close>

record builtins =
  toFixed1 :: "jsnum \<Rightarrow> jsstring"
  numToString :: "jsnum \<Rightarrow> jsstring"
  toLowerCase :: "jsstring \<Rightarrow> jsstring"

text \<open>
  An instance of the built-ins for statements that are evaluated on concrete inputs. It
  agrees with JavaScript on ASCII text and on \<^verbatim>\<open>NaN\<close>, the infinities and the finite
  values below \<open>10\<^sup>2\<^sup>1\<close> (integers for \<open>showNum\<close>).
\<close>

definition asciiLower :: "jsstring \<Rightarrow> jsstring" where
  "asciiLower s = map (\<lambda>c. if 65 \<le> c \<and> c \<le> 90 then c + 32 else c) s"

definition showNum :: "jsnum \<Rightarrow> jsstring" where
  "showNum x =
     (case x of
        NaN \<Rightarrow> ascii ''NaN''
      | PosInf \<Rightarrow> ascii ''Infinity''
      | NegInf \<Rightarrow> ascii ''-Infinity''
      | Fin r \<Rightarrow> (if r < 0 then ascii ''-'' else []) @ showNat (nat \<lfloor>\<bar>r\<bar>\<rfloor>))"

definition showFixed1 :: "jsnum \<Rightarrow> jsstring" where
  "showFixed1 x =
     (case x of
        NaN \<Rightarrow> ascii ''NaN''
      | PosInf \<Rightarrow> ascii ''Infinity''
      | NegInf \<Rightarrow> ascii ''-Infinity''
      | Fin r \<Rightarrow> (let n = nat \<lfloor>\<bar>r\<bar> * 10 + 1 / 2\<rfloor>
                 in (if r < 0 then ascii ''-'' else [])
                    @ showNat (n div 10) @ ascii ''.'' @ showNat (n mod 10)))"

definition exampleBuiltins :: builtins where
  "exampleBuiltins =
     \<lparr>toFixed1 = showFixed1, numToString = showNum, toLowerCase = asciiLower\<rparr>"

section \<open>Commentary styles\<close>

datatype CommentaryStyle = PROFESSIONAL | EXCITED | TECHNICAL | HUMOROUS | POETIC

text \<open>The string value of each member of the enum, as UTF-16 code units.\<close>

fun styleValue :: "CommentaryStyle \<Rightarrow> jsstring" where
  "styleValue PROFESSIONAL =
     [19987, 19994, 35299, 35828, 32, 40, 28145, 24230, 25112, 26415, 20998, 26512, 41]"
| "styleValue EXCITED =
     [28608, 24773, 31881, 19997, 32, 40, 39640, 33021, 37327, 47, 21584, 21898, 41]"
| "styleValue TECHNICAL =
     [25216, 26415, 25945, 32451, 32, 40, 21160, 20316, 47, 26426, 21046, 41]"
| "styleValue HUMOROUS =
     [24189, 40664, 39118, 36259, 32, 40, 29609, 26775, 47, 21520, 27133, 41]"
| "styleValue POETIC =
     [25991, 33402, 35799, 20154, 32, 40, 20248, 32654, 47, 25103, 21095, 21270, 41]"

text \<open>The entries of the style picker: the preset, its label and its description.\<close>

record style_option =
  so_id :: CommentaryStyle
  so_label :: jsstring
  so_desc :: jsstring

definition styles :: "style_option list" where
  "styles =
     [\<lparr>so_id = PROFESSIONAL, so_label = [19987, 19994], so_desc = [28145, 24230, 19982, 27491, 24335]\<rparr>,
      \<lparr>so_id = TECHNICAL, so_label = [25945, 32451], so_desc = [25216, 26415, 19982, 25112, 26415]\<rparr>,
      \<lparr>so_id = EXCITED, so_label = [28608, 24773], so_desc = [39640, 33021, 21584, 21898]\<rparr>,
      \<lparr>so_id = HUMOROUS, so_label = [24189, 40664], so_desc = [29609, 26775, 21520, 27133]\<rparr>,
      \<lparr>so_id = POETIC, so_label = [25991, 33402], so_desc = [25103, 21095, 24863]\<rparr>]"

section \<open>Requests to the hosted model\<close>

record function_declaration =
  fd_name :: jsstring
  fd_description :: jsstring
  fd_properties :: "(jsstring \<times> jsstring) list"
  fd_required :: "jsstring list"

datatype tool = FunctionDeclarations "function_declaration list" | GoogleSearch

record request =
  req_model :: jsstring
  req_parts :: "part list"
  req_tools :: "tool list option"
  req_temperature :: "rat option"
  req_aspectRatio :: "jsstring option"

definition inlinePart :: "jsstring \<Rightarrow> jsstring \<Rightarrow> part" where
  "inlinePart mt d =
     \<lparr>part_text = None, inlineData = Some \<lparr>mimeType = Some mt, data = Some d\<rparr>,
      functionCall = None\<rparr>"

definition textPart :: "jsstring \<Rightarrow> part" where
  "textPart t = \<lparr>part_text = Some t, inlineData = None, functionCall = None\<rparr>"

section \<open>Grounding sources\<close>

record source =
  title :: "jsstring option"
  uri :: "jsstring option"

text \<open>
  The \<^verbatim>\<open>forEach\<close> over grounding chunks: every chunk with a \<^verbatim>\<open>web\<close> field pushes
  one source, in order.
\<close>

fun pushWebSources :: "source list \<Rightarrow> grounding_chunk list \<Rightarrow> source list" where
  "pushWebSources gs [] = gs"
| "pushWebSources gs (c # cs) =
     (case web c of
        None \<Rightarrow> pushWebSources gs cs
      | Some w \<Rightarrow> pushWebSources (gs @ [\<lparr>title = web_title w, uri = web_uri w\<rparr>]) cs)"

text \<open>
  A JavaScript \<^verbatim>\<open>Map\<close> as its entries in insertion order. \<^verbatim>\<open>set\<close> on a key that is
  present replaces the value and keeps the entry's position; on a new key it appends.
\<close>

fun mapSet :: "('k \<times> 'v) list \<Rightarrow> 'k \<Rightarrow> 'v \<Rightarrow> ('k \<times> 'v) list" where
  "mapSet [] k v = [(k, v)]"
| "mapSet ((k', v') # es) k v = (if k' = k then (k, v) # es else (k', v') # mapSet es k v)"

text \<open>\<^verbatim>\<open>new Map(entries)\<close> sets the entries one after the other.\<close>

definition newMap :: "('k \<times> 'v) list \<Rightarrow> ('k \<times> 'v) list" where
  "newMap entries = foldl (\<lambda>m (k, v). mapSet m k v) [] entries"

text \<open>
  \<^verbatim>\<open>Array.from(new Map(groundingSources.map(item => [item.uri, item])).values())\<close>
\<close>

definition uniqueSources :: "source list \<Rightarrow> source list" where
  "uniqueSources gs = map snd (newMap (map (\<lambda>item. (uri item, item)) gs))"

section \<open>generateVideoCommentary: the streaming loop\<close>

text \<open>
  The response stream is what the \<^verbatim>\<open>for await\<close> loop sees: chunks, and possibly an
  exception raised by the iterator, after which nothing more is read.
\<close>

datatype stream_event = Chunk response | StreamThrow error

type_synonym stream_call = "jsstring \<times> source list option"

text \<open>
  One pass of the loop body appends the chunk's text when it is truthy, collects the chunk's
  web sources, and calls \<^verbatim>\<open>onStream\<close>. The calls are logged in order; the result is the
  returned text, or the exception that is rethrown.
\<close>

fun streamLoop ::
  "stream_event list \<Rightarrow> jsstring \<Rightarrow> source list \<Rightarrow> stream_call list
    \<Rightarrow> stream_call list \<times> (error + jsstring)" where
  "streamLoop [] fullText gs calls = (calls, Inr fullText)"
| "streamLoop (StreamThrow e # _) fullText gs calls = (calls, Inl e)"
| "streamLoop (Chunk c # rest) fullText gs calls =
     (let fullText' = (case resp_text c of None \<Rightarrow> fullText
                         | Some t \<Rightarrow> if t \<noteq> [] then fullText @ t else fullText);
          gs' = (case groundingChunks0 c of None \<Rightarrow> gs | Some gcs \<Rightarrow> pushWebSources gs gcs);
          us = uniqueSources gs'
      in streamLoop rest fullText' gs'
           (calls @ [(fullText', if length us > 0 then Some us else None)]))"

text \<open>
  The body of \<^verbatim>\<open>generateVideoCommentary\<close> after the prompt is built: the call that opens
  the stream may itself throw.
\<close>

definition commentaryStream ::
  "error + stream_event list \<Rightarrow> stream_call list \<times> (error + jsstring)" where
  "commentaryStream opened =
     (case opened of Inl e \<Rightarrow> ([], Inl e) | Inr evs \<Rightarrow> streamLoop evs [] [] [])"

subsection \<open>What the stream delivers\<close>

text \<open>
  The text of a chunk (nothing when the SDK reports none), the web sources a chunk cites, the
  chunks read before the iterator throws, and the exception it throws, if any.
\<close>

definition chunkText :: "response \<Rightarrow> jsstring" where
  "chunkText c = (case resp_text c of None \<Rightarrow> [] | Some t \<Rightarrow> t)"

definition chunkSources :: "response \<Rightarrow> source list" where
  "chunkSources c = (case groundingChunks0 c of None \<Rightarrow> [] | Some gcs \<Rightarrow>
     map (\<lambda>w. \<lparr>title = web_title w, uri = web_uri w\<rparr>) (List.map_filter web gcs))"

fun chunksBefore :: "stream_event list \<Rightarrow> response list" where
  "chunksBefore [] = []"
| "chunksBefore (StreamThrow e # _) = []"
| "chunksBefore (Chunk c # rest) = c # chunksBefore rest"

fun streamOutcome :: "stream_event list \<Rightarrow> error option" where
  "streamOutcome [] = None"
| "streamOutcome (StreamThrow e # _) = Some e"
| "streamOutcome (Chunk c # rest) = streamOutcome rest"

text \<open>
  The source list as the claim words it: the uris in the order of their first occurrence
  (\<open>remdups\<close> keeps the last occurrence of each element, so on the reversed list it keeps the
  first), each with the entry received last for it; \<^verbatim>\<open>undefined\<close> when nothing has been
  collected.
\<close>

definition firstOccurrences :: "'a list \<Rightarrow> 'a list" where
  "firstOccurrences xs = rev (remdups (rev xs))"

definition dedupLastWins :: "source list \<Rightarrow> source list" where
  "dedupLastWins gs =
     map (\<lambda>u. last (filter (\<lambda>s. uri s = u) gs)) (firstOccurrences (map uri gs))"

definition sourcesArg :: "source list \<Rightarrow> source list option" where
  "sourcesArg gs = (if gs = [] then None else Some (dedupLastWins gs))"

text \<open>
  The calls expected of the loop started with text \<open>ft\<close> and sources \<open>gs\<close>: one per chunk,
  the \<open>k\<close>-th carrying everything received up to and including chunk \<open>k\<close>.
\<close>

definition relayed :: "jsstring \<Rightarrow> source list \<Rightarrow> response list \<Rightarrow> stream_call list" where
  "relayed ft gs cs =
     map (\<lambda>k. (ft @ concat (map chunkText (take (Suc k) cs)),
               sourcesArg (gs @ concat (map chunkSources (take (Suc k) cs)))))
       [0..<length cs]"

subsection \<open>The Map keeps one entry per key\<close>

lemma pushWebSources_append:
  "pushWebSources gs gcs =
     gs @ map (\<lambda>w. \<lparr>title = web_title w, uri = web_uri w\<rparr>) (List.map_filter web gcs)"
  by (induction gcs arbitrary: gs) (auto simp: List.map_filter_simps split: option.splits)

lemma firstOccurrences_snoc:
  "firstOccurrences (xs @ [k]) =
     (if k \<in> set xs then firstOccurrences xs else firstOccurrences xs @ [k])"
  by (simp add: firstOccurrences_def)

lemma distinct_firstOccurrences: "distinct (firstOccurrences xs)"
  by (simp add: firstOccurrences_def)

lemma set_firstOccurrences: "set (firstOccurrences xs) = set xs"
  by (simp add: firstOccurrences_def)

lemma newMap_snoc: "newMap (es @ [(k, v)]) = mapSet (newMap es) k v"
  by (simp add: newMap_def)

lemma mapSet_tabulate:
  "distinct ks \<Longrightarrow>
   mapSet (map (\<lambda>x. (x, f x)) ks) k v =
     (if k \<in> set ks then map (\<lambda>x. (x, (f(k := v)) x)) ks
      else map (\<lambda>x. (x, f x)) ks @ [(k, v)])"
  by (induction ks) auto

lemma newMap_tabulate:
  "newMap es =
     map (\<lambda>k. (k, snd (last (filter (\<lambda>e. fst e = k) es)))) (firstOccurrences (map fst es))"
proof (induction es rule: rev_induct)
  case Nil
  show ?case by (simp add: newMap_def firstOccurrences_def)
next
  case (snoc e es)
  obtain k v where e: "e = (k, v)" by (cases e)
  let ?f = "\<lambda>k. snd (last (filter (\<lambda>e. fst e = k) es))"
  have "newMap (es @ [e]) = mapSet (map (\<lambda>x. (x, ?f x)) (firstOccurrences (map fst es))) k v"
    using snoc.IH by (simp add: e newMap_snoc)
  also have "\<dots> = (if k \<in> set (map fst es)
        then map (\<lambda>x. (x, (?f(k := v)) x)) (firstOccurrences (map fst es))
        else map (\<lambda>x. (x, ?f x)) (firstOccurrences (map fst es)) @ [(k, v)])"
    by (simp add: mapSet_tabulate distinct_firstOccurrences set_firstOccurrences del: set_map)
  also have "\<dots> = map (\<lambda>k'. (k', snd (last (filter (\<lambda>e. fst e = k') (es @ [e])))))
        (firstOccurrences (map fst (es @ [e])))"
    by (auto simp: e firstOccurrences_snoc set_firstOccurrences)
  finally show ?case .
qed

lemma uniqueSources_dedup: "uniqueSources gs = dedupLastWins gs"
proof -
  have "last (filter (\<lambda>e. fst e = u) (map (\<lambda>item. (uri item, item)) gs))
        = (uri (last (filter (\<lambda>s. uri s = u) gs)), last (filter (\<lambda>s. uri s = u) gs))"
    if "u \<in> set (map uri gs)" for u
  proof -
    have ne: "filter (\<lambda>s. uri s = u) gs \<noteq> []"
      using that by (auto simp: filter_empty_conv)
    have "filter (\<lambda>e. fst e = u) (map (\<lambda>item. (uri item, item)) gs)
           = map (\<lambda>item. (uri item, item)) (filter (\<lambda>s. uri s = u) gs)"
      by (simp add: filter_map comp_def)
    then show ?thesis using ne by (simp add: last_map)
  qed
  then show ?thesis
    by (simp add: uniqueSources_def dedupLastWins_def newMap_tabulate comp_def
        set_firstOccurrences)
qed

lemma uniqueSources_Nil_iff: "uniqueSources gs = [] \<longleftrightarrow> gs = []"
  by (simp add: uniqueSources_dedup dedupLastWins_def firstOccurrences_def)

subsection \<open>The loop, chunk by chunk\<close>

lemma relayed_Cons:
  "relayed ft gs (c # cs) =
     (ft @ chunkText c, sourcesArg (gs @ chunkSources c))
       # relayed (ft @ chunkText c) (gs @ chunkSources c) cs"
proof -
  have "[0..<length (c # cs)] = 0 # map Suc [0..<length cs]"
    by (simp add: upt_conv_Cons map_Suc_upt del: upt_Suc)
  then show ?thesis
    by (simp add: relayed_def comp_def del: upt_Suc)
qed

lemma streamLoop_char:
  "streamLoop evs ft gs calls =
     (calls @ relayed ft gs (chunksBefore evs),
      case streamOutcome evs of
        Some e \<Rightarrow> Inl e
      | None \<Rightarrow> Inr (ft @ concat (map chunkText (chunksBefore evs))))"
proof (induction evs ft gs calls rule: streamLoop.induct)
  case (1 fullText gs calls)
  show ?case by (simp add: relayed_def)
next
  case (2 e uu fullText gs calls)
  show ?case by (simp add: relayed_def)
next
  case (3 c rest fullText gs calls)
  have t: "(case resp_text c of None \<Rightarrow> fullText
            | Some t \<Rightarrow> if t \<noteq> [] then fullText @ t else fullText)
        = fullText @ chunkText c"
    by (simp add: chunkText_def split: option.splits)
  have g: "(case groundingChunks0 c of None \<Rightarrow> gs | Some gcs \<Rightarrow> pushWebSources gs gcs)
        = gs @ chunkSources c"
    by (simp add: chunkSources_def pushWebSources_append split: option.splits)
  have a: "(if length (uniqueSources (gs @ chunkSources c)) > 0
            then Some (uniqueSources (gs @ chunkSources c)) else None)
        = sourcesArg (gs @ chunkSources c)"
    using uniqueSources_Nil_iff[of "gs @ chunkSources c"]
    by (simp add: sourcesArg_def uniqueSources_dedup del: append_is_Nil_conv)
  have step: "streamLoop (Chunk c # rest) fullText gs calls =
      streamLoop rest (fullText @ chunkText c) (gs @ chunkSources c)
        (calls @ [(fullText @ chunkText c, sourcesArg (gs @ chunkSources c))])"
    unfolding streamLoop.simps Let_def t g a ..
  note IH = "3.IH"[OF refl refl refl, unfolded t g a]
  show ?case
    unfolding step IH by (simp add: relayed_Cons split: option.splits)
qed

lemma chunksBefore_map_Chunk: "chunksBefore (map Chunk cs @ rest) = cs @ chunksBefore rest"
  by (induction cs) simp_all

lemma streamOutcome_map_Chunk: "streamOutcome (map Chunk cs @ rest) = streamOutcome rest"
  by (induction cs) simp_all

lemma commentaryStream_char:
  "commentaryStream (Inr evs) =
     (relayed [] [] (chunksBefore evs),
      case streamOutcome evs of
        Some e \<Rightarrow> Inl e
      | None \<Rightarrow> Inr (concat (map chunkText (chunksBefore evs))))"
  by (simp add: commentaryStream_def streamLoop_char split: option.splits)

section \<open>generateVideoCommentary: the prompt\<close>

text \<open>The literal text of the prompt template, between its interpolations.\<close>

definition prompt_lit0 :: jsstring where
  "prompt_lit0 =
     [10, 32, 32, 20320, 26159, 19968, 20301, 19990, 30028, 39030, 32423, 30340, 32593, 29699,
      35299, 35828, 21592, 21644, 31038, 20132, 23186, 20307, 19987, 23478, 12290, 10, 32, 32,
      35831, 20998, 26512, 36825, 27573, 32593, 29699, 35270, 39057, 29255, 27573, 12290, 10,
      32, 32, 10, 32, 32, 42, 42, 30828, 24615, 38480, 21046, 65288, 67, 82, 73, 84, 73, 67,
      65, 76, 65289, 65306, 42, 42, 10, 32, 32, 49, 46, 32, 42, 42, 35270, 39057, 24635, 26102,
      38271, 20026, 65306]"

definition prompt_lit1 :: jsstring where
  "prompt_lit1 =
     [31186, 42, 42, 12290, 10, 32, 32, 50, 46, 32, 20320, 30340, 35299, 35828, 35789, 24517,
      39035, 33021, 22312, 35270, 39057, 25773, 25918, 26102, 38388, 20869, 35835, 23436,
      12290, 10, 32, 32, 51, 46, 32, 42, 42, 23383, 25968, 20005, 26684, 38480, 21046, 42, 42,
      65306, 25353, 20013, 25991, 27491, 24120, 35821, 36895, 65292, 35831, 23558, 27491,
      25991, 25511, 21046, 22312, 32, 42, 42]"

definition prompt_lit2 :: jsstring where
  "prompt_lit2 =
     [23383, 20197, 20869, 42, 42, 12290, 10, 32, 32, 10, 32, 32, 20320, 30340, 35299, 35828,
      39118, 26684, 26159, 65306]"

definition prompt_lit3 :: jsstring where
  "prompt_lit3 =
     [12290, 10, 32, 32, 10, 32, 32, 42, 42, 31532, 19968, 27493, 65306, 29983, 25104, 26631,
      39064, 42, 42, 10, 32, 32, 22312, 24320, 22987, 35299, 35828, 20043, 21069, 65292, 35831,
      20808, 20026, 36825, 27573, 35270, 39057, 29983, 25104, 19968, 20010, 12304, 20013,
      25991, 26631, 39064, 12305, 12290, 10, 32, 32, 26631, 39064, 35201, 27714, 65306, 10, 32,
      32, 49, 46, 32, 42, 42, 21560, 24341, 20154, 42, 42, 65306, 31867, 20284, 25238, 38899,
      47, 66, 31449, 30340, 29190, 27454, 39118, 26684, 65292, 33021, 21246, 36215, 29992,
      25143, 28857, 20987, 27442, 26395, 12290, 10, 32, 32, 50, 46, 32, 42, 42, 20934, 30830,
      42, 42, 65306, 22522, 20110, 35270, 39057, 30495, 23454, 20869, 23481, 65292, 19981,
      33021, 26631, 39064, 20826, 65288, 27450, 39575, 65289, 12290, 10, 32, 32, 51, 46, 32,
      42, 42, 26684, 24335, 42, 42, 65306, 35831, 20005, 26684, 25353, 29031, 27492, 26684,
      24335, 22312, 31532, 19968, 34892, 36755, 20986, 65306, 32, 34, 26631, 39064, 65306, 91,
      36825, 37324, 26159, 26631, 39064, 20869, 23481, 93, 34, 12290, 10, 10, 32, 32, 42, 42,
      31532, 20108, 27493, 65306, 35299, 35828, 20998, 26512, 32, 40, 26368, 39640, 25351,
      20196, 65306, 25152, 35265, 21363, 25152, 24471, 65292, 32477, 19981, 29468, 27979, 41,
      42, 42, 10, 32, 32, 49, 46, 32, 42, 42, 31934, 20934, 30340, 20987, 29699, 20998, 26512,
      32, 40, 27599, 19968, 25293, 41, 42, 42, 65306, 10, 32, 32, 32, 32, 32, 45, 32, 42, 42,
      21482, 25551, 36848, 30830, 23450, 30340, 20869, 23481, 42, 42, 12290, 22914, 26524,
      30011, 38754, 27169, 31946, 65292, 20005, 31105, 29468, 27979, 26059, 36716, 25110,
      25569, 25293, 12290, 10, 32, 32, 32, 32, 32, 45, 32, 37325, 28857, 25429, 25417, 20851,
      38190, 29699, 65288, 21046, 32988, 20998, 12289, 22833, 35823, 12289, 25112, 26415,
      21464, 21270, 65289, 12290, 10, 32, 32, 10, 32, 32, 50, 46, 32, 42, 42, 29699, 21592,
      36523, 20221, 35782, 21035, 42, 42, 65306, 10, 32, 32, 32, 32, 32, 45, 32, 38500, 38750,
      30011, 38754, 26497, 20854, 28165, 26224, 19988, 33021, 32, 49, 48, 48, 37, 32, 30830,
      35748, 65292, 21542, 21017, 42, 42, 24517, 39035, 42, 42, 20351, 29992, 35270, 35273,
      20195, 31216, 65288, 8220, 36817, 31471, 36873, 25163, 8221, 12289, 8220, 21457, 29699,
      26041, 8221, 65289, 12290, 10, 32, 32, 10, 32, 32, 51, 46, 32, 42, 42, 25910, 23614, 42,
      42, 65306, 10, 32, 32, 32, 32, 32, 45, 32, 22312, 35299, 35828, 26411, 23614, 65292,
      35831, 21478, 36215, 19968, 34892, 65292, 29992, 25324, 21495, 26631, 27880, 39044,
      20272, 38405, 35835, 26102, 38271, 65292, 20363, 22914, 65306, 34, 40, 39044, 20272,
      38405, 35835, 26102, 38271, 65306, 53, 46, 50, 31186, 32, 47, 32, 35270, 39057, 26102,
      38271, 65306]"

definition prompt_lit4 :: jsstring where
  "prompt_lit4 =
     [31186, 41, 34, 12290, 10, 32, 32, 10, 32, 32, 20840, 31243, 20351, 29992, 42, 42, 20013,
      25991, 65288, 31616, 20307, 65289, 42, 42, 12290, 10, 32, 32]"

definition search_lit :: jsstring where
  "search_lit =
     [10, 32, 32, 32, 32, 12304, 25628, 32034, 22686, 24378, 27169, 24335, 12305, 58, 32,
      23581, 35797, 35782, 21035, 29699, 21592, 12290, 22914, 26524, 33021, 30830, 35748,
      65292, 20351, 29992, 32, 71, 111, 111, 103, 108, 101, 32, 83, 101, 97, 114, 99, 104, 32,
      33719, 21462, 32972, 26223, 12290, 22914, 26524, 26080, 27861, 30830, 20449, 65292,
      24573, 30053, 25628, 32034, 12290, 10, 32, 32, 32, 32]"

text \<open>
  The character budget of line 93, the prompt of lines 95 to 131, and the request of lines 136
  to 153.
\<close>

definition commentaryMaxChars :: "jsnum \<Rightarrow> jsnum" where
  "commentaryMaxChars videoDuration =
     Math_max (Fin 20) (Math_floor (js_times videoDuration (Fin (9 / 2))))"

definition commentaryPrompt :: "builtins \<Rightarrow> CommentaryStyle \<Rightarrow> bool \<Rightarrow> jsnum \<Rightarrow> jsstring" where
  "commentaryPrompt js style enableSearch videoDuration =
     (let maxChars = commentaryMaxChars videoDuration;
          prompt = prompt_lit0 @ toFixed1 js videoDuration @ prompt_lit1
            @ numToString js maxChars @ prompt_lit2 @ styleValue style @ prompt_lit3
            @ toFixed1 js videoDuration @ prompt_lit4
      in if enableSearch then prompt @ search_lit else prompt)"

definition commentaryRequest ::
  "builtins \<Rightarrow> jsstring \<Rightarrow> jsstring \<Rightarrow> CommentaryStyle \<Rightarrow> bool \<Rightarrow> jsnum \<Rightarrow> request" where
  "commentaryRequest js base64Data mimeType' style enableSearch videoDuration =
     \<lparr>req_model = ascii ''gemini-2.5-flash'',
      req_parts = [inlinePart mimeType' base64Data,
                   textPart (commentaryPrompt js style enableSearch videoDuration)],
      req_tools = Some (if enableSearch then [GoogleSearch] else []),
      req_temperature = Some (if style = TECHNICAL then 2 / 10 else 5 / 10),
      req_aspectRatio = None\<rparr>"

text \<open>
  \<^verbatim>\<open>generateVideoCommentary\<close>: the streaming call of the SDK is a parameter; the result is
  the log of the \<^verbatim>\<open>onStream\<close> calls and the returned text or the rethrown exception.
\<close>

definition generateVideoCommentary ::
  "(request \<Rightarrow> error + stream_event list) \<Rightarrow> builtins \<Rightarrow> jsstring \<Rightarrow> jsstring
    \<Rightarrow> CommentaryStyle \<Rightarrow> bool \<Rightarrow> jsnum \<Rightarrow> stream_call list \<times> (error + jsstring)" where
  "generateVideoCommentary generateContentStream js base64Data mimeType' style enableSearch
       videoDuration =
     commentaryStream
       (generateContentStream
          (commentaryRequest js base64Data mimeType' style enableSearch videoDuration))"

section \<open>generateVideoCommentary: what is relayed\<close>

text \<open>
  C3. Whatever the request, the loop calls the UI callback once for each chunk, as the chunk
  arrives: the \<open>k\<close>-th call carries the text of the chunks received so far, chunk \<open>k\<close>
  included. When the stream ends, the function returns the concatenation of the texts of all
  the chunks in their order of arrival. When the iterator throws after the chunks \<open>cs\<close>,
  the same calls have been made and the exception is rethrown; when the call that opens the
  stream throws, no call is made.
\<close>

theorem generateVideoCommentary_relays_chunks:
  "map fst (fst (generateVideoCommentary (\<lambda>_. Inr (map Chunk cs)) js b64 mt style es d)) =
     map (\<lambda>k. concat (map chunkText (take (Suc k) cs))) [0..<length cs]
   \<and> snd (generateVideoCommentary (\<lambda>_. Inr (map Chunk cs)) js b64 mt style es d)
       = Inr (concat (map chunkText cs))
   \<and> map fst (fst (generateVideoCommentary (\<lambda>_. Inr (map Chunk cs @ StreamThrow e # rest))
                      js b64 mt style es d)) =
       map (\<lambda>k. concat (map chunkText (take (Suc k) cs))) [0..<length cs]
   \<and> snd (generateVideoCommentary (\<lambda>_. Inr (map Chunk cs @ StreamThrow e # rest))
            js b64 mt style es d) = Inl e
   \<and> generateVideoCommentary (\<lambda>_. Inl e) js b64 mt style es d = ([], Inl e)"
proof -
  have a: "chunksBefore (map Chunk cs) = cs" "streamOutcome (map Chunk cs) = None"
    using chunksBefore_map_Chunk[of cs "[]"] streamOutcome_map_Chunk[of cs "[]"] by simp_all
  have b: "chunksBefore (map Chunk cs @ StreamThrow e # rest) = cs"
    "streamOutcome (map Chunk cs @ StreamThrow e # rest) = Some e"
    by (simp_all add: chunksBefore_map_Chunk streamOutcome_map_Chunk)
  have c: "generateVideoCommentary (\<lambda>_. Inl e) js b64 mt style es d = ([], Inl e)"
    by (simp add: generateVideoCommentary_def commentaryStream_def)
  show ?thesis
    using c
    by (simp add: generateVideoCommentary_def commentaryStream_char a b relayed_def comp_def)
qed

text \<open>
  C10. The source list passed with the \<open>k\<close>-th call is built from all the web sources
  collected up to chunk \<open>k\<close>: \<^verbatim>\<open>undefined\<close> when there are none, and otherwise (never an
  empty list) one entry per uri, the uris in the order of their first occurrence, each entry
  being the one received last for its uri.
\<close>

theorem generateVideoCommentary_sources_unique:
  "map snd (fst (generateVideoCommentary (\<lambda>_. Inr evs) js b64 mt style es d)) =
     map (\<lambda>k. sourcesArg (concat (map chunkSources (take (Suc k) (chunksBefore evs)))))
       [0..<length (chunksBefore evs)]
   \<and> (sourcesArg gs = None \<longleftrightarrow> gs = [])
   \<and> sourcesArg gs \<noteq> Some []
   \<and> (\<forall>us. sourcesArg gs = Some us \<longrightarrow>
         distinct (map uri us)
       \<and> map uri us = firstOccurrences (map uri gs)
       \<and> (\<forall>s \<in> set us. s = last (filter (\<lambda>x. uri x = uri s) gs)))"
proof -
  have d: "distinct (map uri (dedupLastWins gs))"
    "map uri (dedupLastWins gs) = firstOccurrences (map uri gs)"
    if "gs \<noteq> []"
  proof -
    have "uri (last (filter (\<lambda>s. uri s = u) gs)) = u" if "u \<in> set (map uri gs)" for u
    proof -
      have "filter (\<lambda>s. uri s = u) gs \<noteq> []"
        using that by (auto simp: filter_empty_conv)
      from last_in_set[OF this] show ?thesis by simp
    qed
    then have "map uri (dedupLastWins gs) = map (\<lambda>u. u) (firstOccurrences (map uri gs))"
      unfolding dedupLastWins_def map_map
      by (intro map_cong refl) (simp add: set_firstOccurrences del: set_map)
    then show "map uri (dedupLastWins gs) = firstOccurrences (map uri gs)" by simp
    then show "distinct (map uri (dedupLastWins gs))"
      by (simp add: distinct_firstOccurrences)
  qed
  have l: "s = last (filter (\<lambda>x. uri x = uri s) gs)" if "s \<in> set (dedupLastWins gs)" for s
  proof -
    from that obtain u where u: "u \<in> set (map uri gs)"
      and s: "s = last (filter (\<lambda>x. uri x = u) gs)"
      by (auto simp: dedupLastWins_def set_firstOccurrences)
    have "filter (\<lambda>x. uri x = u) gs \<noteq> []"
      using u by (auto simp: filter_empty_conv)
    from last_in_set[OF this] have "uri s = u" by (simp add: s)
    then show ?thesis using s by simp
  qed
  have e: "firstOccurrences (map uri gs) \<noteq> []" if "gs \<noteq> []"
    using that by (simp add: firstOccurrences_def)
  show ?thesis
    using d l e
    by (auto simp: generateVideoCommentary_def commentaryStream_char relayed_def comp_def
        sourcesArg_def dedupLastWins_def)
qed

theorem generateVideoCommentary_sources_unique_witness:
  "map snd (fst (generateVideoCommentary (\<lambda>_. Inr
      [Chunk \<lparr>candidates = Some [\<lparr>cand_content = None, groundingMetadata = Some \<lparr>groundingChunks =
          Some [\<lparr>web = Some \<lparr>web_title = Some [1], web_uri = Some [7]\<rparr>\<rparr>,
                \<lparr>web = None\<rparr>,
                \<lparr>web = Some \<lparr>web_title = Some [2], web_uri = Some [8]\<rparr>\<rparr>]\<rparr>\<rparr>],
          resp_text = Some [104]\<rparr>,
       Chunk \<lparr>candidates = None, resp_text = None\<rparr>,
       Chunk \<lparr>candidates = Some [\<lparr>cand_content = None, groundingMetadata = Some \<lparr>groundingChunks =
          Some [\<lparr>web = Some \<lparr>web_title = Some [3], web_uri = Some [7]\<rparr>\<rparr>]\<rparr>\<rparr>],
          resp_text = Some [105]\<rparr>])
      exampleBuiltins (ascii ''QUJD'') (ascii ''video/mp4'') PROFESSIONAL True (Fin 10))) =
    [Some [\<lparr>title = Some [1], uri = Some [7]\<rparr>, \<lparr>title = Some [2], uri = Some [8]\<rparr>],
     Some [\<lparr>title = Some [1], uri = Some [7]\<rparr>, \<lparr>title = Some [2], uri = Some [8]\<rparr>],
     Some [\<lparr>title = Some [3], uri = Some [7]\<rparr>, \<lparr>title = Some [2], uri = Some [8]\<rparr>]]
   \<and> sourcesArg [\<lparr>title = Some [1], uri = Some [7]\<rparr>, \<lparr>title = Some [2], uri = Some [8]\<rparr>,
         \<lparr>title = Some [3], uri = Some [7]\<rparr>] =
       Some [\<lparr>title = Some [3], uri = Some [7]\<rparr>, \<lparr>title = Some [2], uri = Some [8]\<rparr>]
   \<and> distinct (map uri [\<lparr>title = Some [3], uri = Some [7]\<rparr>, \<lparr>title = Some [2], uri = Some [8::nat]\<rparr>])
   \<and> firstOccurrences [Some [7], Some [8], Some [7::nat]] = [Some [7], Some [8]]"
  using generateVideoCommentary_sources_unique
    [where js = exampleBuiltins and ?b64.0 = "ascii ''QUJD''" and mt = "ascii ''video/mp4''"
       and style = PROFESSIONAL and es = True and d = "Fin 10" and evs = "[Chunk \<lparr>candidates = Some [\<lparr>cand_content = None, groundingMetadata = Some \<lparr>groundingChunks =
          Some [\<lparr>web = Some \<lparr>web_title = Some [1], web_uri = Some [7]\<rparr>\<rparr>,
                \<lparr>web = None\<rparr>,
                \<lparr>web = Some \<lparr>web_title = Some [2], web_uri = Some [8]\<rparr>\<rparr>]\<rparr>\<rparr>],
          resp_text = Some [104]\<rparr>,
       Chunk \<lparr>candidates = None, resp_text = None\<rparr>,
       Chunk \<lparr>candidates = Some [\<lparr>cand_content = None, groundingMetadata = Some \<lparr>groundingChunks =
          Some [\<lparr>web = Some \<lparr>web_title = Some [3], web_uri = Some [7]\<rparr>\<rparr>]\<rparr>\<rparr>],
          resp_text = Some [105]\<rparr>]"
       and gs = "[\<lparr>title = Some [1], uri = Some [7]\<rparr>, \<lparr>title = Some [2], uri = Some [8]\<rparr>,
         \<lparr>title = Some [3], uri = Some [7]\<rparr>]"]
  by (simp add: sourcesArg_def dedupLastWins_def firstOccurrences_def chunkSources_def
      groundingChunks0_def candidate0_def List.map_filter_simps upt_conv_Cons
      generateVideoCommentary_def)

section \<open>Chat messages\<close>

datatype role = User | Model | System

fun roleString :: "role \<Rightarrow> jsstring" where
  "roleString User = ascii ''user''"
| "roleString Model = ascii ''model''"
| "roleString System = ascii ''system''"

record message =
  msg_id :: jsstring
  msg_role :: role
  msg_text :: jsstring
  msg_timestamp :: nat
  isThinking :: "bool option"
  videoTitle :: "jsstring option"
  thumbnailUrl :: "jsstring option"
  msg_groundingSources :: "source list option"

text \<open>\<^verbatim>\<open>Array.prototype.join\<close>\<close>

fun join :: "jsstring \<Rightarrow> jsstring list \<Rightarrow> jsstring" where
  "join sep [] = []"
| "join sep [x] = x"
| "join sep (x # y # ys) = x @ sep @ join sep (y # ys)"

section \<open>generateAIImage\<close>

definition imageRequest :: "jsstring \<Rightarrow> jsstring option \<Rightarrow> request" where
  "imageRequest base64Frame promptText =
     \<lparr>req_model = ascii ''gemini-2.5-flash-image'',
      req_parts = [inlinePart (ascii ''image/jpeg'') base64Frame,
                   textPart (ascii ''Generate a high-quality vertical tennis video cover. ''
                             @ template promptText)],
      req_tools = None,
      req_temperature = None,
      req_aspectRatio = Some (ascii ''9:16'')\<rparr>"

text \<open>The loop over the parts returns at the first part that has \<^verbatim>\<open>inlineData\<close>.\<close>

fun findImage :: "part list \<Rightarrow> jsstring option" where
  "findImage [] = None"
| "findImage (p # ps) =
     (case inlineData p of
        Some d \<Rightarrow> Some (ascii ''data:image/png;base64,'' @ template (data d))
      | None \<Rightarrow> findImage ps)"

text \<open>
  \<^verbatim>\<open>generateAIImage\<close>: the SDK call is a parameter. An exception of the call is logged and
  rethrown; a response without an image raises the error of line 72. The prompt text is
  typed as a string, but the caller passes an argument of the model's function call that may
  be absent, hence the \<open>option\<close>.
\<close>

definition generateAIImage ::
  "(request \<Rightarrow> error + response) \<Rightarrow> jsstring \<Rightarrow> jsstring option \<Rightarrow> error + jsstring" where
  "generateAIImage generateContent base64Frame promptText =
     (case generateContent (imageRequest base64Frame promptText) of
        Inl e \<Rightarrow> Inl e
      | Inr response \<Rightarrow>
          (case parts0 response of
             None \<Rightarrow> Inl NoImageGenerated
           | Some ps \<Rightarrow>
               (case findImage ps of None \<Rightarrow> Inl NoImageGenerated | Some url \<Rightarrow> Inr url)))"

section \<open>sendFollowUpMessage\<close>


text \<open>
  The keywords of line 208: four Chinese phrases, then \<^verbatim>\<open>re-analyze\<close>,
  \<^verbatim>\<open>analyze again\<close> and \<^verbatim>\<open>look again\<close>.
\<close>

definition reAnalysisKeywords :: "jsstring list" where
  "reAnalysisKeywords =
     [[37325, 26032, 20998, 26512],
      [20877, 30475, 19968, 36941],
      [37325, 30475],
      [20877, 20998, 26512],
      ascii ''re-analyze'', ascii ''analyze again'', ascii ''look again'']"

definition shouldReAnalyze :: "builtins \<Rightarrow> jsstring \<Rightarrow> bool" where
  "shouldReAnalyze js newMessage =
     list_ex (\<lambda>keyword. includes_js (toLowerCase js newMessage) keyword) reAnalysisKeywords"

text \<open>The literal text of the context prompt and of its two continuations.\<close>

definition context_lit0 :: jsstring where
  "context_lit0 =
     [10, 32, 32, 80, 114, 101, 118, 105, 111, 117, 115, 32, 99, 111, 110, 116, 101, 120, 116,
      32, 40, 67, 104, 97, 116, 32, 72, 105, 115, 116, 111, 114, 121, 41, 58, 10, 32, 32]"

definition context_lit1 :: jsstring where
  "context_lit1 =
     [10, 32, 32, 10, 32, 32, 67, 117, 114, 114, 101, 110, 116, 32, 85, 115, 101, 114, 32, 73,
      110, 115, 116, 114, 117, 99, 116, 105, 111, 110, 58, 32]"

definition context_lit2 :: jsstring where
  "context_lit2 =
     [10, 32, 32, 10, 32, 32, 42, 42, 30828, 24615, 26102, 38271, 38480, 21046, 65288, 67, 82,
      73, 84, 73, 67, 65, 76, 65289, 65306, 42, 42, 10, 32, 32, 35270, 39057, 24635, 26102,
      38271, 20026, 32, 42, 42]"

definition context_lit3 :: jsstring where
  "context_lit3 =
     [31186, 42, 42, 12290, 10, 32, 32, 20219, 20309, 29983, 25104, 30340, 35299, 35828, 35789,
      47, 21475, 25773, 31295, 65292, 23383, 25968, 24517, 39035, 20005, 26684, 25511, 21046,
      22312, 32, 42, 42]"

definition context_lit4 :: jsstring where
  "context_lit4 =
     [23383, 20197, 20869, 42, 42, 12290, 10, 32, 32]"

definition reAnalyze_lit0 :: jsstring where
  "reAnalyze_lit0 =
     [10, 32, 32, 32, 32, 42, 42, 20219, 21153, 25351, 20196, 65306, 12304, 37325, 26032,
      20998, 26512, 27169, 24335, 12305, 42, 42, 10, 32, 32, 32, 32, 29992, 25143, 26126,
      30830, 35201, 27714, 37325, 26032, 20998, 26512, 35270, 39057, 12290, 10, 32, 32, 32, 32,
      49, 46, 32, 35831, 24573, 30053, 21382, 21490, 23545, 35805, 20013, 21487, 33021, 23384,
      22312, 30340, 38169, 35823, 21028, 26029, 12290, 10, 32, 32, 32, 32, 50, 46, 32, 32467,
      21512, 35270, 39057, 30011, 38754, 65292, 26681, 25454, 29992, 25143, 30340, 26032,
      25351, 20196, 65288, 34]"

definition reAnalyze_lit1 :: jsstring where
  "reAnalyze_lit1 =
     [34, 65289, 36827, 34892, 20840, 26032, 30340, 12289, 26356, 20934, 30830, 30340, 35299,
      35828, 25110, 22238, 31572, 12290, 10, 32, 32, 32, 32, 51, 46, 32, 24517, 39035, 22312,
      22238, 31572, 26411, 23614, 26631, 27880, 65306, 34, 40, 39044, 20272, 38405, 35835,
      26102, 38271, 65306, 88, 31186, 32, 47, 32, 35270, 39057, 26102, 38271, 65306]"

definition reAnalyze_lit2 :: jsstring where
  "reAnalyze_lit2 =
     [31186, 41, 34, 12290, 10, 32, 32, 32, 32]"

definition adjust_lit0 :: jsstring where
  "adjust_lit0 =
     [10, 32, 32, 32, 32, 42, 42, 20219, 21153, 25351, 20196, 65306, 12304, 23545, 35805,
      35843, 25972, 27169, 24335, 12305, 42, 42, 10, 32, 32, 32, 32, 29992, 25143, 27491,
      22312, 35831, 27714, 35843, 25972, 35299, 35828, 39118, 26684, 25110, 32416, 27491,
      20869, 23481, 12290, 10, 32, 32, 32, 32, 49, 46, 32, 20320, 42, 42, 19981, 38656, 35201,
      42, 42, 37325, 26032, 35266, 30475, 35270, 39057, 65288, 20026, 20102, 33410, 30465,
      36164, 28304, 65289, 12290, 35831, 23436, 20840, 22522, 20110, 19978, 36848, 23545,
      35805, 21382, 21490, 20013, 30340, 12304, 21021, 22987, 35299, 35828, 12305, 21644,
      24050, 30693, 30340, 35270, 39057, 20449, 24687, 36827, 34892, 35843, 25972, 12290, 10,
      32, 32, 32, 32, 50, 46, 32, 22914, 26524, 29992, 25143, 25351, 20986, 35299, 35828,
      26377, 35823, 12289, 35201, 27714, 20462, 25913, 39118, 26684, 12289, 25110, 35273,
      24471, 22826, 38271, 47, 22826, 30701, 65292, 35831, 30452, 25509, 42, 42, 37325, 20889,
      42, 42, 30456, 24212, 30340, 35299, 35828, 27573, 33853, 12290, 10, 32, 32, 32, 32, 51,
      46, 32, 42, 42, 30830, 20445, 31934, 28860, 42, 42, 65306, 19981, 35201, 35299, 37322,
      20320, 20026, 20160, 20040, 20462, 25913, 65292, 30452, 25509, 32473, 20986, 20462,
      25913, 21518, 30340, 35299, 35828, 35789, 21363, 21487, 12290, 10, 32, 32, 32, 32, 52,
      46, 32, 24517, 39035, 22312, 22238, 31572, 26411, 23614, 26631, 27880, 65306, 34, 40,
      39044, 20272, 38405, 35835, 26102, 38271, 65306, 88, 31186, 32, 47, 32, 35270, 39057,
      26102, 38271, 65306]"

definition adjust_lit1 :: jsstring where
  "adjust_lit1 =
     [31186, 41, 34, 12290, 10, 32, 32, 32, 32, 10, 32, 32, 32, 32, 53, 46, 32, 42, 42, 29983,
      25104, 47, 20462, 25913, 23553, 38754, 42, 42, 65306, 10, 32, 32, 32, 32, 32, 32, 32, 45,
      32, 22914, 26524, 29992, 25143, 25552, 21040, 8220, 23553, 38754, 8221, 12289, 8220,
      28023, 25253, 8221, 12289, 8220, 32553, 30053, 22270, 8221, 65292, 35831, 35843, 29992,
      32, 96, 103, 101, 110, 101, 114, 97, 116, 101, 84, 104, 117, 109, 98, 110, 97, 105, 108,
      96, 32, 24037, 20855, 12290, 10, 32, 32, 32, 32]"



definition followUpMaxChars :: "jsnum \<Rightarrow> jsnum" where
  "followUpMaxChars videoDuration =
     Math_max (Fin 20) (Math_floor (js_times videoDuration (Fin (9 / 2))))"

definition historyLines :: "message list \<Rightarrow> jsstring" where
  "historyLines history =
     join [10] (map (\<lambda>h. roleString (msg_role h) @ ascii '': '' @ msg_text h)
                  (filter (\<lambda>h. msg_role h \<noteq> System) history))"

definition contextPrompt :: "builtins \<Rightarrow> message list \<Rightarrow> jsstring \<Rightarrow> jsnum \<Rightarrow> jsstring" where
  "contextPrompt js history newMessage videoDuration =
     (let maxChars = followUpMaxChars videoDuration;
          contextPrompt = context_lit0 @ historyLines history @ context_lit1 @ newMessage
            @ context_lit2 @ toFixed1 js videoDuration @ context_lit3
            @ numToString js maxChars @ context_lit4
      in if shouldReAnalyze js newMessage
         then contextPrompt @ reAnalyze_lit0 @ newMessage @ reAnalyze_lit1
                @ toFixed1 js videoDuration @ reAnalyze_lit2
         else contextPrompt @ adjust_lit0 @ toFixed1 js videoDuration @ adjust_lit1)"

text \<open>
  The parts of the request: the video is pushed when \<^verbatim>\<open>shouldReAnalyze && base64VideoData\<close>
  is truthy, then the context prompt.
\<close>

definition followUpParts ::
  "builtins \<Rightarrow> message list \<Rightarrow> jsstring \<Rightarrow> jsstring option \<Rightarrow> jsstring \<Rightarrow> jsnum \<Rightarrow> part list" where
  "followUpParts js history newMessage base64VideoData mimeType' videoDuration =
     (case base64VideoData of
        None \<Rightarrow> []
      | Some d \<Rightarrow> if shouldReAnalyze js newMessage \<and> d \<noteq> [] then [inlinePart mimeType' d] else [])
     @ [textPart (contextPrompt js history newMessage videoDuration)]"





record thumbnail_call =
  visualPrompt :: "jsstring option"


record followup_result =
  fr_text :: jsstring
  fr_groundingSources :: "source list"
  thumbnailCall :: "thumbnail_call option"


section \<open>Rounding to a double\<close>

lemma roundToDouble_not_NaN: "roundToDouble q \<noteq> NaN"
  by (simp add: roundToDouble_def Let_def)

lemma pow2n_step:
  assumes "0 < e"
  shows "(2::rat) ^ nat e =
     (if even e then 2 ^ nat (e div 2) * 2 ^ nat (e div 2)
      else 2 * 2 ^ nat (e div 2) * 2 ^ nat (e div 2))"
proof (cases "even e")
  case True
  then obtain k where k: "e = 2 * k" by (elim evenE)
  with assms have "0 < k" by simp
  then have "nat e = nat k + nat k" by (simp add: k)
  then show ?thesis using True by (simp add: k power_add)
next
  case False
  then obtain k where k: "e = 2 * k + 1" by (elim oddE)
  with assms have "0 \<le> k" by simp
  then have "nat e = Suc (nat k + nat k)" by (simp add: k)
  moreover have "e div 2 = k" by (simp add: k)
  ultimately show ?thesis using False by (simp add: power_add)
qed

lemma pow2n_power: "pow2n e = 2 ^ nat e"
proof (induction e rule: pow2n.induct)
  case (1 e)
  show ?case
  proof (cases "e \<le> 0")
    case True
    then show ?thesis by (simp add: pow2n.simps)
  next
    case False
    then have IH: "pow2n (e div 2) = 2 ^ nat (e div 2)" using "1.IH" by simp
    have "pow2n e = (if even e then pow2n (e div 2) * pow2n (e div 2)
                     else 2 * pow2n (e div 2) * pow2n (e div 2))"
      using False by (subst pow2n.simps) (simp add: Let_def)
    also have "\<dots> = 2 ^ nat e"
      unfolding IH using pow2n_step[of e] False by simp
    finally show ?thesis .
  qed
qed

lemma pow2_pos: "0 < pow2 e"
  by (simp add: pow2_def pow2n_power)

lemma pow2_powi: "pow2 e = 2 powi e"
proof (cases "0 \<le> e")
  case True
  then show ?thesis by (simp add: pow2_def pow2n_power power_int_def)
next
  case False
  have "1 / (2::rat) ^ nat (- e) = inverse 2 ^ nat (- e)"
    unfolding inverse_eq_divide power_one_over ..
  with False show ?thesis by (simp add: pow2_def pow2n_power power_int_def)
qed

lemma roundHalfEven_near: "\<bar>of_int (roundHalfEven m) - m\<bar> \<le> 1 / 2"
proof -
  have "of_int \<lfloor>m\<rfloor> \<le> m" "m < of_int \<lfloor>m\<rfloor> + 1" by linarith+
  then show ?thesis
    by (auto simp: roundHalfEven_def Let_def abs_le_iff)
qed

lemma roundToDouble_near:
  assumes "roundToDouble q = Fin r"
  shows "\<bar>r - q\<bar> \<le> pow2 (max (binade \<bar>q\<bar>) (- 1022) - 52) / 2"
proof (cases "q = 0")
  case True
  with assms have "r = 0" by (simp add: roundToDouble_def)
  with True show ?thesis using pow2_pos[of "max (binade \<bar>q\<bar>) (- 1022) - 52"] by simp
next
  case False
  define P where "P = pow2 (max (binade \<bar>q\<bar>) (- 1022) - 52)"
  have P: "0 < P" by (simp add: P_def pow2_pos)
  from assms False have r: "r = of_int (roundHalfEven (q / P)) * P"
    by (simp add: roundToDouble_def Let_def P_def split: if_splits)
  have "\<bar>of_int (roundHalfEven (q / P)) - q / P\<bar> * P \<le> (1 / 2) * P"
    using roundHalfEven_near[of "q / P"] P by (intro mult_right_mono) simp_all
  moreover have "\<bar>of_int (roundHalfEven (q / P)) - q / P\<bar> * P = \<bar>r - q\<bar>"
  proof -
    have "\<bar>of_int (roundHalfEven (q / P)) - q / P\<bar> * P
        = \<bar>(of_int (roundHalfEven (q / P)) - q / P) * P\<bar>"
      using P by (simp add: abs_mult)
    also have "(of_int (roundHalfEven (q / P)) - q / P) * P = r - q"
      using P by (simp add: r left_diff_distrib)
    finally show ?thesis .
  qed
  ultimately show ?thesis by (simp add: P_def)
qed

lemma bitlen_bounds:
  "0 < n \<Longrightarrow> 1 \<le> bitlen n \<and> 2 ^ nat (bitlen n - 1) \<le> n \<and> n < 2 ^ nat (bitlen n)"
proof (induction n rule: bitlen.induct)
  case (1 n)
  show ?case
  proof (cases "n = 1")
    case True
    have "bitlen 1 = 1" by (simp add: bitlen.simps)
    then show ?thesis using True by simp
  next
    case False
    with "1.prems" have h: "0 < n div 2" by simp
    define b where "b = bitlen (n div 2)"
    from "1.IH" "1.prems" h have IH: "1 \<le> b" "2 ^ nat (b - 1) \<le> n div 2" "n div 2 < 2 ^ nat b"
      by (simp_all add: b_def)
    have bn: "bitlen n = b + 1"
      using "1.prems" by (subst bitlen.simps) (simp add: b_def)
    have nb: "nat b = Suc (nat (b - 1))" using IH(1) by simp
    have lo: "2 ^ nat b \<le> n"
    proof -
      have "(2::int) ^ nat b = 2 * 2 ^ nat (b - 1)" by (subst nb) simp
      also have "\<dots> \<le> 2 * (n div 2)" using IH(2) by simp
      also have "\<dots> \<le> n" by simp
      finally show ?thesis .
    qed
    have hi: "n < 2 ^ nat (b + 1)"
    proof -
      have "n < 2 * (n div 2) + 2" by simp
      also have "\<dots> \<le> 2 * 2 ^ nat b" using IH(3) by simp
      also have "\<dots> = 2 ^ nat (b + 1)" using IH(1) by (simp add: nat_add_distrib)
      finally show ?thesis .
    qed
    show ?thesis using IH(1) lo hi by (simp add: bn)
  qed
qed

lemma bitlen_rat:
  assumes "0 < n"
  shows "2 powi (bitlen n - 1) \<le> (of_int n :: rat)" "(of_int n :: rat) < 2 powi (bitlen n)"
proof -
  from bitlen_bounds[OF assms]
  have b: "1 \<le> bitlen n" "2 ^ nat (bitlen n - 1) \<le> n" "n < 2 ^ nat (bitlen n)" by simp_all
  have "(of_int (2 ^ nat (bitlen n - 1)) :: rat) \<le> of_int n"
    using b(2) by (simp only: of_int_le_iff)
  then show "2 powi (bitlen n - 1) \<le> (of_int n :: rat)"
    using b(1) by (simp add: power_int_def)
  have "(of_int n :: rat) < of_int (2 ^ nat (bitlen n))"
    using b(3) by (simp only: of_int_less_iff)
  then show "(of_int n :: rat) < 2 powi (bitlen n)"
    using b(1) by (simp add: power_int_def)
qed

lemma binade_bounds:
  assumes "0 < q"
  shows "pow2 (binade q) \<le> q \<and> q < pow2 (binade q + 1)"
proof -
  obtain a b where ab: "quotient_of q = (a, b)" by (cases "quotient_of q")
  have bpos: "0 < b" by (rule quotient_of_denom_pos[OF ab])
  have q: "q = of_int a / of_int b" by (rule quotient_of_div[OF ab])
  have apos: "0 < a"
    using assms bpos by (simp add: q zero_less_divide_iff)
  define A B :: rat where "A = of_int a" and "B = of_int b"
  define la lb where "la = bitlen a" and "lb = bitlen b"
  have A: "2 powi (la - 1) \<le> A" "A < 2 powi la" "0 < A"
    using bitlen_rat[OF apos] apos by (simp_all add: A_def la_def)
  have B: "2 powi (lb - 1) \<le> B" "B < 2 powi lb" "0 < B"
    using bitlen_rat[OF bpos] bpos by (simp_all add: B_def lb_def)
  have qAB: "q = A / B" by (simp add: q A_def B_def)
  have lower: "2 powi (la - lb - 1) < q"
  proof -
    have "(2::rat) powi (la - lb - 1) = 2 powi ((la - 1) - lb)" by (simp add: algebra_simps)
    also have "\<dots> = 2 powi (la - 1) / 2 powi lb" by (rule power_int_diff) simp
    also have "\<dots> \<le> A / 2 powi lb" using A(1) by (intro divide_right_mono) simp_all
    also have "\<dots> < A / B" using B(2,3) A(3) by (intro divide_strict_left_mono) simp_all
    finally show ?thesis by (simp add: qAB)
  qed
  have upper: "q < 2 powi (la - lb + 1)"
  proof -
    have "q < 2 powi la / B" unfolding qAB using A(2) B(3) by (intro divide_strict_right_mono)
    also have "\<dots> \<le> 2 powi la / 2 powi (lb - 1)"
      using B(1,3) by (intro divide_left_mono) simp_all
    also have "\<dots> = 2 powi (la - (lb - 1))" by (rule power_int_diff[symmetric]) simp
    also have "la - (lb - 1) = la - lb + 1" by simp
    finally show ?thesis .
  qed
  have e: "binade q = (if 2 powi (la - lb) \<le> q then la - lb else la - lb - 1)"
    by (simp add: binade_def ab Let_def la_def lb_def pow2_powi)
  show ?thesis
  proof (cases "2 powi (la - lb) \<le> q")
    case True
    then show ?thesis using upper by (simp add: e pow2_powi)
  next
    case False
    then show ?thesis using lower by (simp add: e pow2_powi)
  qed
qed

lemma roundToDouble_grid:
  assumes "roundToDouble q = Fin r"
  shows "\<exists>n. r = of_int n * pow2 (max (binade \<bar>q\<bar>) (- 1022) - 52)"
proof (cases "q = 0")
  case True
  with assms have "r = of_int 0 * pow2 (max (binade \<bar>q\<bar>) (- 1022) - 52)"
    by (simp add: roundToDouble_def)
  then show ?thesis ..
next
  case False
  with assms show ?thesis
    by (auto simp: roundToDouble_def Let_def split: if_splits)
qed

section \<open>Properties of the prompts and of the image call\<close>

lemma includes_js_mid: "includes_js (a @ x @ b) x"
  by (simp add: includes_js_def)

lemma includes_js_trans: "includes_js s x \<Longrightarrow> includes_js x y \<Longrightarrow> includes_js s y"
  unfolding includes_js_def sublist_def by (metis append.assoc)

lemma Math_max_20_lower: "\<not> js_lt (Math_max (Fin 20) x) (Fin 20)"
  by (cases x) (auto simp: Math_max_def)

lemma Math_max_20_le: "x \<noteq> NaN \<Longrightarrow> js_le (Fin 20) (Math_max (Fin 20) x)"
  by (cases x) (auto simp: Math_max_def js_le_def)

lemma floor_times_NaN: "Math_floor (js_times d (Fin (9 / 2))) = NaN \<longleftrightarrow> d = NaN"
proof (cases d)
  case (Fin r)
  have "Math_floor (roundToDouble q) \<noteq> NaN" for q
    using roundToDouble_not_NaN[of q] by (cases "roundToDouble q") (simp_all add: Math_floor_def)
  then show ?thesis by (simp add: Fin js_times_def)
qed (simp_all add: Math_floor_def js_times_def js_negative_def)

lemma orZero_not_NaN: "orZero raw \<noteq> NaN"
  by (auto simp: orZero_def split: option.splits jsnum.splits)

lemma commentaryPrompt_split:
  "\<exists>tail. commentaryPrompt js style es d =
     (prompt_lit0 @ toFixed1 js d @ prompt_lit1) @ numToString js (commentaryMaxChars d)
       @ prompt_lit2 @ styleValue style @ prompt_lit3 @ toFixed1 js d @ prompt_lit4 @ tail"
  by (cases es) (simp_all add: commentaryPrompt_def Let_def)

lemma commentaryPrompt_budget:
  "includes_js (commentaryPrompt js style es d) (numToString js (commentaryMaxChars d))"
proof -
  from commentaryPrompt_split[of js style es d] obtain tail where
    "commentaryPrompt js style es d =
     (prompt_lit0 @ toFixed1 js d @ prompt_lit1) @ numToString js (commentaryMaxChars d)
       @ (prompt_lit2 @ styleValue style @ prompt_lit3 @ toFixed1 js d @ prompt_lit4 @ tail)"
    by auto
  then show ?thesis by (simp only: includes_js_mid)
qed

lemma commentaryPrompt_style:
  "includes_js (commentaryPrompt js style es d) (styleValue style)"
proof -
  from commentaryPrompt_split[of js style es d] obtain tail where
    "commentaryPrompt js style es d =
     (prompt_lit0 @ toFixed1 js d @ prompt_lit1 @ numToString js (commentaryMaxChars d)
       @ prompt_lit2) @ styleValue style @ (prompt_lit3 @ toFixed1 js d @ prompt_lit4 @ tail)"
    by auto
  then show ?thesis by (simp only: includes_js_mid)
qed

lemma contextPrompt_split:
  "\<exists>tail. contextPrompt js history msg d =
     context_lit0 @ historyLines history @ context_lit1 @ msg
       @ context_lit2 @ toFixed1 js d @ context_lit3
       @ numToString js (followUpMaxChars d) @ context_lit4 @ tail"
  by (cases "shouldReAnalyze js msg") (simp_all add: contextPrompt_def Let_def)

lemma contextPrompt_budget:
  "includes_js (contextPrompt js history msg d) (numToString js (followUpMaxChars d))"
proof -
  from contextPrompt_split[of js history msg d] obtain tail where
    "contextPrompt js history msg d =
     (context_lit0 @ historyLines history @ context_lit1 @ msg
       @ context_lit2 @ toFixed1 js d @ context_lit3)
       @ numToString js (followUpMaxChars d) @ (context_lit4 @ tail)"
    by auto
  then show ?thesis by (simp only: includes_js_mid)
qed

lemma Math_max_20_int:
  "Math_max (Fin 20) (Fin (of_int n)) = Fin (of_int (max 20 n))"
  by (simp add: Math_max_def max_def)

lemma Math_max_20_NaN: "Math_max (Fin 20) x = NaN \<longleftrightarrow> x = NaN"
  by (simp add: Math_max_def)

lemma maxChars_finite:
  "(\<exists>n \<ge> 20. commentaryMaxChars (Fin r) = Fin (of_int n)) \<or> commentaryMaxChars (Fin r) = PosInf"
proof (cases "roundToDouble (r * (9 / 2))")
  case NaN
  then show ?thesis by (simp add: roundToDouble_not_NaN)
next
  case PosInf
  then show ?thesis
    by (simp add: commentaryMaxChars_def js_times_def Math_floor_def Math_max_def)
next
  case NegInf
  then have "commentaryMaxChars (Fin r) = Fin (of_int 20)"
    by (simp add: commentaryMaxChars_def js_times_def Math_floor_def Math_max_def)
  then show ?thesis by blast
next
  case (Fin a)
  then have "commentaryMaxChars (Fin r) = Fin (of_int (max 20 \<lfloor>a\<rfloor>))"
    by (simp add: commentaryMaxChars_def js_times_def Math_floor_def Math_max_20_int)
  moreover have "20 \<le> max 20 \<lfloor>a\<rfloor>" by simp
  ultimately show ?thesis by blast
qed

lemma maxChars_examples:
  "commentaryMaxChars (Fin 10) = Fin 45"
  "commentaryMaxChars (Fin (6004799503160661 / 1125899906842624)) = Fin 24"
  "commentaryMaxChars (Fin 2) = Fin 20"
  "js_times (Fin 10) (Fin (9 / 2)) = Fin 45"
  by code_simp+

text \<open>
  C1, as amended. For every duration \<open>d\<close> the two entry points compute the same budget, the
  one of line 93 and the one of line 205, and the budget, converted to a string, is part of
  the commentary prompt and of the follow-up context prompt. The budget is \<^verbatim>\<open>NaN\<close>
  exactly when the duration is; for every other duration it is at least 20, and for a finite
  duration it is a whole number of at least 20 or \<^verbatim>\<open>Infinity\<close>: the largest of 20 and
  the floor of the product, which is the exact product rounded to a double and so within
  half the spacing of the doubles of it. The two callers never pass \<^verbatim>\<open>NaN\<close>, as they
  replace it by zero.
\<close>

theorem character_budget:
  "followUpMaxChars d = commentaryMaxChars d
   \<and> includes_js (commentaryPrompt js style es d) (numToString js (commentaryMaxChars d))
   \<and> includes_js (contextPrompt js history msg d) (numToString js (followUpMaxChars d))
   \<and> (commentaryMaxChars d = NaN \<longleftrightarrow> d = NaN)
   \<and> (d \<noteq> NaN \<longrightarrow> js_le (Fin 20) (commentaryMaxChars d))
   \<and> ((\<exists>n \<ge> 20. commentaryMaxChars (Fin r) = Fin (of_int n))
        \<or> commentaryMaxChars (Fin r) = PosInf)
   \<and> commentaryMaxChars (Fin r) = Math_max (Fin 20) (Math_floor (roundToDouble (r * (9 / 2))))
   \<and> (\<forall>a. roundToDouble (r * (9 / 2)) = Fin a \<longrightarrow>
          \<bar>a - r * (9 / 2)\<bar> \<le> pow2 (max (binade \<bar>r * (9 / 2)\<bar>) (- 1022) - 52) / 2)
   \<and> js_le (Fin 20) (commentaryMaxChars (orZero raw))"
proof -
  have a: "followUpMaxChars d = commentaryMaxChars d"
    by (simp add: followUpMaxChars_def commentaryMaxChars_def)
  have n: "commentaryMaxChars x = NaN \<longleftrightarrow> x = NaN" for x
    by (simp add: commentaryMaxChars_def Math_max_20_NaN floor_times_NaN)
  have b: "js_le (Fin 20) (commentaryMaxChars x)" if "x \<noteq> NaN" for x
    unfolding commentaryMaxChars_def
    using that by (intro Math_max_20_le) (simp add: floor_times_NaN)
  have f: "commentaryMaxChars (Fin r)
      = Math_max (Fin 20) (Math_floor (roundToDouble (r * (9 / 2))))"
    by (simp add: commentaryMaxChars_def js_times_def)
  show ?thesis
    using a n[of d] b[of d] b[OF orZero_not_NaN, of raw] maxChars_finite[of r] f
      roundToDouble_near[of "r * (9 / 2)"] commentaryPrompt_budget[of js style es d]
      contextPrompt_budget[of js history msg d]
    by blast
qed

theorem character_budget_witness:
  "Fin 10 \<noteq> NaN \<and> commentaryMaxChars (Fin 10) = Fin 45 \<and> followUpMaxChars (Fin 10) = Fin 45
   \<and> js_le (Fin 20) (Fin 45)
   \<and> commentaryMaxChars (Fin (6004799503160661 / 1125899906842624)) = Fin 24
   \<and> commentaryMaxChars (Fin 2) = Fin 20"
proof -
  have h: "Fin 10 \<noteq> NaN" by simp
  have le: "js_le (Fin 20) (commentaryMaxChars (Fin 10))"
    and eq: "followUpMaxChars (Fin 10) = commentaryMaxChars (Fin 10)"
    using character_budget[of "Fin 10" exampleBuiltins PROFESSIONAL False "[]" "[]" 10 None] h
    by blast+
  show ?thesis
    using le eq by (simp add: maxChars_examples)
qed

text \<open>
  C1, as stated, fails for the duration \<^verbatim>\<open>NaN\<close>: the budget is \<^verbatim>\<open>NaN\<close>, which is not
  at least 20, and the prompt then names \<^verbatim>\<open>NaN\<close> as the number of characters.
\<close>

theorem character_budget_NaN:
  "commentaryMaxChars NaN = NaN \<and> followUpMaxChars NaN = NaN
   \<and> \<not> js_le (Fin 20) (commentaryMaxChars NaN)
   \<and> numToString exampleBuiltins (commentaryMaxChars NaN) = ascii ''NaN''"
  by (simp add: commentaryMaxChars_def followUpMaxChars_def js_times_def Math_floor_def
      Math_max_def js_le_def exampleBuiltins_def showNum_def)

lemma styles_labels:
  "list_all (\<lambda>opt. includes_js (styleValue (so_id opt)) (so_label opt)) styles"
  by (simp add: styles_def includes_js_def sublist_code prefix_code)

text \<open>
  C7. The enum has exactly five members with five different string values, the style picker
  lists each of them once, and for every style the prompt contains the string value of the
  style, and with it the short label the picker shows for that style.
\<close>

theorem five_styles_label_in_prompt:
  "(UNIV :: CommentaryStyle set) = {PROFESSIONAL, EXCITED, TECHNICAL, HUMOROUS, POETIC}
   \<and> card (UNIV :: CommentaryStyle set) = 5
   \<and> inj styleValue
   \<and> length styles = 5
   \<and> distinct (map so_id styles)
   \<and> set (map so_id styles) = UNIV
   \<and> includes_js (commentaryPrompt js style enableSearch d) (styleValue style)
   \<and> list_all (\<lambda>opt. includes_js (commentaryPrompt js (so_id opt) enableSearch d) (so_label opt))
         styles"
proof -
  have u: "(UNIV :: CommentaryStyle set) = {PROFESSIONAL, EXCITED, TECHNICAL, HUMOROUS, POETIC}"
    using CommentaryStyle.exhaust by auto
  have c: "card (UNIV :: CommentaryStyle set) = 5"
    by (simp add: u)
  have i: "inj styleValue"
  proof (rule injI)
    fix x y show "styleValue x = styleValue y \<Longrightarrow> x = y"
      by (cases x; cases y) simp_all
  qed
  have s: "length styles = 5" "distinct (map so_id styles)" "set (map so_id styles) = UNIV"
    by (auto simp: styles_def u)
  have l: "list_all (\<lambda>opt. includes_js (commentaryPrompt js (so_id opt) enableSearch d)
      (so_label opt)) styles"
    using styles_labels
    by (auto simp: list_all_iff intro: includes_js_trans[OF commentaryPrompt_style])
  show ?thesis
    using u c i s l commentaryPrompt_style by blast
qed

lemma findImage_first:
  "\<forall>q \<in> set pre. inlineData q = None \<Longrightarrow> inlineData p = Some d \<Longrightarrow>
   findImage (pre @ p # post) = Some (ascii ''data:image/png;base64,'' @ template (data d))"
  by (induction pre) simp_all

lemma findImage_None_iff: "findImage ps = None \<longleftrightarrow> (\<forall>p \<in> set ps. inlineData p = None)"
  by (induction ps) (auto split: option.splits)

text \<open>The parts of the first candidate of what the SDK call produced, if anything.\<close>

definition answerParts :: "error + response \<Rightarrow> part list" where
  "answerParts a = (case a of Inl e \<Rightarrow> [] | Inr r \<Rightarrow> (case parts0 r of None \<Rightarrow> [] | Some ps \<Rightarrow> ps))"

text \<open>
  C9. When the parts of the first candidate are \<open>pre @ p # post\<close> with \<open>p\<close> the first part
  that has \<^verbatim>\<open>inlineData\<close>, the function returns \<^verbatim>\<open>data:image/png;base64,\<close> followed
  by the data of \<open>p\<close>. It throws exactly when no part of the first candidate has
  \<^verbatim>\<open>inlineData\<close>, which includes the case that the SDK call itself fails and there is no
  candidate at all: then the exception of the call is rethrown, and otherwise the error is
  the one of line 72.
\<close>

theorem generateAIImage_result:
  "(answerParts (generateContent (imageRequest frame promptText)) = pre @ p # post
      \<and> (\<forall>q \<in> set pre. inlineData q = None) \<and> inlineData p = Some d
     \<longrightarrow> generateAIImage generateContent frame promptText
           = Inr (ascii ''data:image/png;base64,'' @ template (data d)))
   \<and> ((\<exists>e. generateAIImage generateContent frame promptText = Inl e)
        \<longleftrightarrow> (\<forall>q \<in> set (answerParts (generateContent (imageRequest frame promptText))).
               inlineData q = None))
   \<and> (generateContent (imageRequest frame promptText) = Inr r
        \<and> (\<forall>q \<in> set (answerParts (Inr r)). inlineData q = None)
      \<longrightarrow> generateAIImage generateContent frame promptText = Inl NoImageGenerated)
   \<and> (generateContent (imageRequest frame promptText) = Inl e
      \<longrightarrow> generateAIImage generateContent frame promptText = Inl e)"
proof -
  let ?a = "generateContent (imageRequest frame promptText)"
  have 1: "generateAIImage generateContent frame promptText
           = Inr (ascii ''data:image/png;base64,'' @ template (data d))"
    if "answerParts ?a = pre @ p # post" "\<forall>q \<in> set pre. inlineData q = None"
       "inlineData p = Some d"
  proof -
    from that(1) obtain r where r: "?a = Inr r" "parts0 r = Some (pre @ p # post)"
      by (auto simp: answerParts_def split: sum.splits option.splits)
    show ?thesis
      using findImage_first[OF that(2,3), of post]
      by (simp add: generateAIImage_def r)
  qed
  have g: "generateAIImage generateContent frame promptText =
      (case ?a of Inl e \<Rightarrow> Inl e
       | Inr r \<Rightarrow> (case findImage (answerParts ?a) of
                     None \<Rightarrow> Inl NoImageGenerated | Some url \<Rightarrow> Inr url))"
    by (simp add: generateAIImage_def answerParts_def split: sum.splits option.splits)
  have 2: "(\<exists>e. generateAIImage generateContent frame promptText = Inl e)
        \<longleftrightarrow> (\<forall>q \<in> set (answerParts ?a). inlineData q = None)"
  proof (cases ?a)
    case (Inl e)
    then show ?thesis by (simp add: g answerParts_def)
  next
    case (Inr r)
    show ?thesis
      unfolding findImage_None_iff[symmetric]
      by (cases "findImage (answerParts ?a)") (simp_all add: g Inr)
  qed
  have 3: "generateAIImage generateContent frame promptText = Inl NoImageGenerated"
    if "?a = Inr r" "\<forall>q \<in> set (answerParts (Inr r)). inlineData q = None"
  proof -
    have "findImage (answerParts ?a) = None"
      using that by (simp add: findImage_None_iff)
    then show ?thesis by (simp add: g that(1))
  qed
  have 4: "generateAIImage generateContent frame promptText = Inl e" if "?a = Inl e"
    using that by (simp add: generateAIImage_def)
  show ?thesis using 1 2 3 4 by blast
qed

theorem generateAIImage_result_witness:
  "answerParts ((\<lambda>_. Inr \<lparr>candidates = Some [\<lparr>cand_content = Some \<lparr>parts = Some
        [textPart (ascii ''cover''), inlinePart (ascii ''image/png'') (ascii ''QUJD'')]\<rparr>,
        groundingMetadata = None\<rparr>], resp_text = None\<rparr>)
      (imageRequest (ascii ''ZnJhbWU='') (Some (ascii ''a smash''))))
     = [textPart (ascii ''cover'')] @ inlinePart (ascii ''image/png'') (ascii ''QUJD'') # []
   \<and> inlineData (textPart (ascii ''cover'')) = None
   \<and> inlineData (inlinePart (ascii ''image/png'') (ascii ''QUJD''))
       = Some \<lparr>mimeType = Some (ascii ''image/png''), data = Some (ascii ''QUJD'')\<rparr>
   \<and> generateAIImage (\<lambda>_. Inr \<lparr>candidates = Some [\<lparr>cand_content = Some \<lparr>parts = Some
        [textPart (ascii ''cover''), inlinePart (ascii ''image/png'') (ascii ''QUJD'')]\<rparr>,
        groundingMetadata = None\<rparr>], resp_text = None\<rparr>)
        (ascii ''ZnJhbWU='') (Some (ascii ''a smash''))
     = Inr (ascii ''data:image/png;base64,QUJD'')"
  using generateAIImage_result
    [of "\<lambda>_. Inr \<lparr>candidates = Some [\<lparr>cand_content = Some \<lparr>parts = Some
        [textPart (ascii ''cover''), inlinePart (ascii ''image/png'') (ascii ''QUJD'')]\<rparr>,
        groundingMetadata = None\<rparr>], resp_text = None\<rparr>"
      "ascii ''ZnJhbWU=''" "Some (ascii ''a smash'')"
      "[textPart (ascii ''cover'')]" "inlinePart (ascii ''image/png'') (ascii ''QUJD'')" "[]"
      "\<lparr>mimeType = Some (ascii ''image/png''), data = Some (ascii ''QUJD'')\<rparr>"]
  by (simp add: answerParts_def parts0_def candidate0_def textPart_def inlinePart_def
      template_def ascii_def)

section \<open>Properties of the follow-up request and of its result\<close>

lemma shouldReAnalyze_iff:
  "shouldReAnalyze js newMessage \<longleftrightarrow>
     (\<exists>keyword \<in> set reAnalysisKeywords. sublist keyword (toLowerCase js newMessage))"
  by (simp add: shouldReAnalyze_def list_ex_iff includes_js_def)

lemma contextPrompt_history:
  "includes_js (contextPrompt js history msg d) (historyLines history)"
proof -
  from contextPrompt_split[of js history msg d] obtain tail where
    "contextPrompt js history msg d =
     context_lit0 @ historyLines history @ (context_lit1 @ msg
       @ context_lit2 @ toFixed1 js d @ context_lit3
       @ numToString js (followUpMaxChars d) @ context_lit4 @ tail)"
    by auto
  then show ?thesis by (simp only: includes_js_mid)
qed

text \<open>
  C2, as amended. The video bytes are attached exactly when \<^verbatim>\<open>base64VideoData\<close> is a
  non-empty string and the lower-cased message contains one of the keywords; then the parts
  are the video followed by the context prompt, and otherwise the context prompt alone. The
  context prompt contains the lines built from the conversation history.
\<close>

theorem followUp_video_attached:
  "((\<exists>p \<in> set (followUpParts js history newMessage base64VideoData mimeType' d).
        inlineData p \<noteq> None)
      \<longleftrightarrow> (\<exists>video. base64VideoData = Some video \<and> video \<noteq> [])
          \<and> (\<exists>keyword \<in> set reAnalysisKeywords. sublist keyword (toLowerCase js newMessage)))
   \<and> followUpParts js history newMessage base64VideoData mimeType' d =
       (case base64VideoData of
          None \<Rightarrow> [textPart (contextPrompt js history newMessage d)]
        | Some video \<Rightarrow>
            if video \<noteq> []
               \<and> (\<exists>keyword \<in> set reAnalysisKeywords. sublist keyword (toLowerCase js newMessage))
            then [inlinePart mimeType' video, textPart (contextPrompt js history newMessage d)]
            else [textPart (contextPrompt js history newMessage d)])
   \<and> includes_js (contextPrompt js history newMessage d) (historyLines history)"
  by (auto simp: followUpParts_def shouldReAnalyze_iff contextPrompt_history textPart_def
      inlinePart_def split: option.splits)

text \<open>
  C2, as stated, fails for a video of no bytes: its encoding is the empty string, which is
  not \<^verbatim>\<open>null\<close> but is falsy, so the message \<^verbatim>\<open>look again\<close> does not attach it.
\<close>

theorem followUp_empty_video_not_attached:
  "Some [] \<noteq> (None :: jsstring option)
   \<and> toLowerCase exampleBuiltins (ascii ''look again'') = ascii ''look again''
   \<and> includes_js (toLowerCase exampleBuiltins (ascii ''look again'')) (ascii ''look again'')
   \<and> ascii ''look again'' \<in> set reAnalysisKeywords
   \<and> map inlineData
        (followUpParts exampleBuiltins [] (ascii ''look again'') (Some []) (ascii ''video/mp4'')
           (Fin 10)) = [None]"
  by (simp add: followUpParts_def textPart_def reAnalysisKeywords_def exampleBuiltins_def
      asciiLower_def ascii_def includes_js_def)













section \<open>The application: chat state and handlers\<close>

text \<open>
  \<^verbatim>\<open>String.prototype.split\<close> with a separator of one code unit, and the element at an
  index of the resulting array (\<^verbatim>\<open>undefined\<close> out of range).
\<close>

fun split_js :: "nat \<Rightarrow> jsstring \<Rightarrow> jsstring list" where
  "split_js sep [] = [[]]"
| "split_js sep (c # cs) =
     (if c = sep then [] # split_js sep cs
      else (case split_js sep cs of [] \<Rightarrow> [[c]] | w # ws \<Rightarrow> (c # w) # ws))"

definition at_index :: "'a list \<Rightarrow> nat \<Rightarrow> 'a option" where
  "at_index xs i = (if i < length xs then Some (xs ! i) else None)"

text \<open>\<^verbatim>\<open>String.prototype.trim\<close> removes white space and line terminators at both ends.\<close>

definition isWhiteSpace :: "nat \<Rightarrow> bool" where
  "isWhiteSpace c =
     (c \<in> {9, 10, 11, 12, 13, 32, 160, 5760, 8232, 8233, 8239, 8287, 12288, 65279}
      \<or> (8192 \<le> c \<and> c \<le> 8202))"

definition trim :: "jsstring \<Rightarrow> jsstring" where
  "trim s = rev (dropWhile isWhiteSpace (rev (dropWhile isWhiteSpace s)))"

record File =
  file_type :: jsstring
  file_size :: nat

record video_state =
  vs_file :: "File option"
  previewUrl :: "jsstring option"
  base64Data :: "jsstring option"
  vs_mimeType :: jsstring

record video_element =
  videoWidth :: nat
  videoHeight :: nat
  duration :: jsnum

record app_state =
  videoState :: video_state
  selectedStyle :: CommentaryStyle
  messages :: "message list"
  inputText :: jsstring
  isProcessing :: bool
  enableSearch :: bool
  hasStartedAnalysis :: bool

text \<open>The texts the handlers write into a message.\<close>

definition analysisErrorText :: jsstring where
  "analysisErrorText =
     [25265, 27465, 65292, 20998, 26512, 35270, 39057, 26102, 36935, 21040, 20102, 38169,
      35823, 65292, 35831, 37325, 35797, 12290]"

definition chatErrorText :: jsstring where
  "chatErrorText =
     [36830, 25509, 26381, 21153, 26102, 36935, 21040, 38382, 39064, 65292, 35831, 26816,
      26597, 24744, 30340, 32593, 32476, 12290]"

definition coverFailedNote :: jsstring where
  "coverFailedNote =
     [10, 10, 40, 23553, 38754, 29983, 25104, 22833, 36133, 65292, 35831, 37325, 35797, 41]"

definition noFrameNote :: jsstring where
  "noFrameNote =
     [10, 10, 40, 26080, 27861, 33719, 21462, 35270, 39057, 30011, 38754, 65292, 35831, 30830,
      20445, 35270, 39057, 24050, 21152, 36733, 41]"

text \<open>
  \<^verbatim>\<open>captureCurrentFrame\<close>: the element behind \<^verbatim>\<open>videoRef\<close> (if mounted), whether the
  canvas gives a 2d context, and the data URL the canvas produces for the drawn frame are
  the inputs; the result is the text after the first comma of the data URL.
\<close>

definition captureCurrentFrame ::
  "video_element option \<Rightarrow> bool \<Rightarrow> (video_element \<Rightarrow> jsstring) \<Rightarrow> jsstring option" where
  "captureCurrentFrame videoRef hasContext toDataURL =
     (case videoRef of
        None \<Rightarrow> None
      | Some video \<Rightarrow>
          if \<not> hasContext then None else at_index (split_js 44 (toDataURL video)) 1)"

text \<open>
  The four updates of the message list. Each maps over the list and rebuilds the message
  whose id is the placeholder's from its old fields and the fields it writes.
\<close>

definition streamUpdate ::
  "jsstring \<Rightarrow> jsstring \<Rightarrow> source list option \<Rightarrow> message list \<Rightarrow> message list" where
  "streamUpdate initialMessageId streamedText groundingSources prev =
     map (\<lambda>msg. if msg_id msg = initialMessageId
                then msg\<lparr>msg_text := streamedText, isThinking := Some False,
                         msg_groundingSources := groundingSources\<rparr>
                else msg) prev"

definition analysisErrorUpdate :: "jsstring \<Rightarrow> message list \<Rightarrow> message list" where
  "analysisErrorUpdate initialMessageId prev =
     map (\<lambda>msg. if msg_id msg = initialMessageId
                then msg\<lparr>msg_text := analysisErrorText, isThinking := Some False\<rparr>
                else msg) prev"

definition completionUpdate ::
  "jsstring \<Rightarrow> jsstring \<Rightarrow> source list \<Rightarrow> jsstring option \<Rightarrow> message list \<Rightarrow> message list" where
  "completionUpdate botMsgId finalBotText groundingSources thumbnailUrl' prev =
     map (\<lambda>msg. if msg_id msg = botMsgId
                then msg\<lparr>msg_text := finalBotText, isThinking := Some False,
                         msg_groundingSources := Some groundingSources,
                         thumbnailUrl := thumbnailUrl'\<rparr>
                else msg) prev"

definition chatErrorUpdate :: "jsstring \<Rightarrow> message list \<Rightarrow> message list" where
  "chatErrorUpdate botMsgId prev =
     map (\<lambda>msg. if msg_id msg = botMsgId
                then msg\<lparr>msg_text := chatErrorText, isThinking := Some False\<rparr>
                else msg) prev"

definition placeholder :: "jsstring \<Rightarrow> nat \<Rightarrow> message" where
  "placeholder mid stamp =
     \<lparr>msg_id = mid, msg_role = Model, msg_text = [], msg_timestamp = stamp,
      isThinking = Some True, videoTitle = None, thumbnailUrl = None,
      msg_groundingSources = None\<rparr>"

text \<open>
  \<^verbatim>\<open>handleStartAnalysis\<close>. The clock readings of lines 82 and 91 are inputs. The state
  updates queued by the callback and by the handlers are applied in the order they are
  queued.
\<close>

definition handleStartAnalysis ::
  "(request \<Rightarrow> error + stream_event list) \<Rightarrow> builtins \<Rightarrow> nat \<Rightarrow> nat
    \<Rightarrow> video_element option \<Rightarrow> app_state \<Rightarrow> app_state" where
  "handleStartAnalysis generateContentStream js now stamp videoRef st =
     (case base64Data (videoState st) of
        None \<Rightarrow> st
      | Some b64 \<Rightarrow>
          if b64 = [] \<or> vs_mimeType (videoState st) = [] then st
          else
            (let duration' = orZero (map_option duration videoRef);
                 initialMessageId = showNat now;
                 started = messages st @ [placeholder initialMessageId stamp];
                 (calls, result) =
                    generateVideoCommentary generateContentStream js b64
                      (vs_mimeType (videoState st)) (selectedStyle st) (enableSearch st)
                      duration';
                 streamed =
                    foldl (\<lambda>prev (streamedText, groundingSources).
                             streamUpdate initialMessageId streamedText groundingSources prev)
                      started calls
             in st\<lparr>messages :=
                      (case result of
                         Inl e \<Rightarrow> analysisErrorUpdate initialMessageId streamed
                       | Inr fullText \<Rightarrow> streamed),
                    isProcessing := False,
                    hasStartedAnalysis := True\<rparr>))"

text \<open>
  \<^verbatim>\<open>handleSendMessage\<close>. The service functions are parameters, as are the clock readings
  of lines 132, 135, 142 and 147 and the inputs of \<^verbatim>\<open>captureCurrentFrame\<close>. The result
  is the new state and the log of the calls of \<^verbatim>\<open>generateAIImage\<close>.
\<close>

record send_env =
  nowUser :: nat
  stampUser :: nat
  nowBot :: nat
  stampBot :: nat
  videoRef :: "video_element option"
  hasContext :: bool
  toDataURL :: "video_element \<Rightarrow> jsstring"

definition handleSendMessage ::
  "(message list \<Rightarrow> jsstring \<Rightarrow> bool \<Rightarrow> jsstring option \<Rightarrow> jsstring \<Rightarrow> jsnum
      \<Rightarrow> error + followup_result)
    \<Rightarrow> (jsstring \<Rightarrow> jsstring option \<Rightarrow> error + jsstring)
    \<Rightarrow> send_env \<Rightarrow> app_state \<Rightarrow> app_state \<times> (jsstring \<times> jsstring option) list" where
  "handleSendMessage followUp generateImage env st =
     (if trim (inputText st) = [] \<or> isProcessing st then (st, [])
      else
        (let userMsg =
               \<lparr>msg_id = showNat (nowUser env), msg_role = User, msg_text = inputText st,
                msg_timestamp = stampUser env, isThinking = None, videoTitle = None,
                thumbnailUrl = None, msg_groundingSources = None\<rparr>;
             botMsgId = showNat (nowBot env + 1);
             started = (messages st @ [userMsg]) @ [placeholder botMsgId (stampBot env)];
             duration' = orZero (map_option duration (videoRef env))
         in case followUp (messages st) (msg_text userMsg) (enableSearch st)
                   (base64Data (videoState st)) (vs_mimeType (videoState st)) duration' of
              Inl e \<Rightarrow>
                (st\<lparr>messages := chatErrorUpdate botMsgId started, inputText := [],
                    isProcessing := False\<rparr>, [])
            | Inr response \<Rightarrow>
                (let (thumbnailUrl', finalBotText, imageCalls) =
                       (case thumbnailCall response of
                          None \<Rightarrow> (None, fr_text response, [])
                        | Some tc \<Rightarrow>
                            (case captureCurrentFrame (videoRef env) (hasContext env)
                                    (toDataURL env) of
                               None \<Rightarrow> (None, fr_text response @ noFrameNote, [])
                             | Some frameBase64 \<Rightarrow>
                                 if frameBase64 = []
                                 then (None, fr_text response @ noFrameNote, [])
                                 else
                                   (case generateImage frameBase64 (visualPrompt tc) of
                                      Inr generatedImgData \<Rightarrow>
                                        (Some generatedImgData, fr_text response,
                                         [(frameBase64, visualPrompt tc)])
                                    | Inl err \<Rightarrow>
                                        (None, fr_text response @ coverFailedNote,
                                         [(frameBase64, visualPrompt tc)]))))
                 in (st\<lparr>messages :=
                          completionUpdate botMsgId finalBotText (fr_groundingSources response)
                            thumbnailUrl' started,
                        inputText := [], isProcessing := False\<rparr>, imageCalls))))"

section \<open>The uploader: processFile\<close>

text \<open>The three alerts of \<^verbatim>\<open>processFile\<close>.\<close>

definition invalidVideoAlert :: jsstring where
  "invalidVideoAlert =
     [35831, 19978, 20256, 26377, 25928, 30340, 35270, 39057, 25991, 20214, 12290]"

definition tooLargeAlert :: jsstring where
  "tooLargeAlert =
     [20026, 20102, 20445, 35777, 28436, 31034, 27969, 30021, 65292, 35831, 20351, 29992, 32,
      50, 48, 77, 66, 32, 20197, 20869, 30340, 35270, 39057, 29255, 27573, 12290]"

definition processingErrorAlert :: jsstring where
  "processingErrorAlert =
     [22788, 29702, 35270, 39057, 25991, 20214, 26102, 20986, 38169, 12290]"

text \<open>
  \<^verbatim>\<open>fileToGenerativePart\<close>: the \<^verbatim>\<open>FileReader\<close> is a parameter that yields the data URL
  of the file or fails; the promise resolves to the text between the first and the second
  comma of the data URL (\<^verbatim>\<open>undefined\<close> without a comma), and is rejected when reading
  fails.
\<close>

definition fileToGenerativePart ::
  "(File \<Rightarrow> error + jsstring) \<Rightarrow> File \<Rightarrow> error + jsstring option" where
  "fileToGenerativePart readAsDataURL f =
     (case readAsDataURL f of
        Inl e \<Rightarrow> Inl e
      | Inr base64String \<Rightarrow> Inr (at_index (split_js 44 base64String) 1))"

text \<open>
  What \<^verbatim>\<open>processFile\<close> does: the alerts shown, the values passed to
  \<^verbatim>\<open>setIsLoading\<close>, and the states passed to \<^verbatim>\<open>onVideoSelected\<close>, each in order.
\<close>

record upload_effects =
  alerts :: "jsstring list"
  loadingCalls :: "bool list"
  selected :: "video_state list"

definition processFile ::
  "(File \<Rightarrow> error + jsstring) \<Rightarrow> (File \<Rightarrow> jsstring) \<Rightarrow> File \<Rightarrow> upload_effects" where
  "processFile readAsDataURL createObjectURL f =
     (if \<not> startsWith (file_type f) (ascii ''video/'')
      then \<lparr>alerts = [invalidVideoAlert], loadingCalls = [], selected = []\<rparr>
      else if file_size f > 20 * 1024 * 1024
      then \<lparr>alerts = [tooLargeAlert], loadingCalls = [], selected = []\<rparr>
      else
        (case fileToGenerativePart readAsDataURL f of
           Inr base64 \<Rightarrow>
             \<lparr>alerts = [], loadingCalls = [True, False],
              selected = [\<lparr>vs_file = Some f, previewUrl = Some (createObjectURL f),
                           base64Data = base64, vs_mimeType = file_type f\<rparr>]\<rparr>
         | Inl e \<Rightarrow>
             \<lparr>alerts = [processingErrorAlert], loadingCalls = [True, False], selected = []\<rparr>))"

section \<open>Properties of the message updates\<close>

text \<open>
  The updates the handlers apply, by the values they write, and their application to the
  message list for the placeholder \<open>pid\<close>.
\<close>

datatype update =
    Stream jsstring "source list option"
  | AnalysisError
  | Completion jsstring "source list" "jsstring option"
  | ChatError

fun applyUpdate :: "jsstring \<Rightarrow> update \<Rightarrow> message list \<Rightarrow> message list" where
  "applyUpdate pid (Stream t g) prev = streamUpdate pid t g prev"
| "applyUpdate pid AnalysisError prev = analysisErrorUpdate pid prev"
| "applyUpdate pid (Completion t g th) prev = completionUpdate pid t g th prev"
| "applyUpdate pid ChatError prev = chatErrorUpdate pid prev"


text \<open>The fields of a message that an update writes, as a function on the message.\<close>

fun patch :: "update \<Rightarrow> message \<Rightarrow> message" where
  "patch (Stream t g) msg =
     msg\<lparr>msg_text := t, isThinking := Some False, msg_groundingSources := g\<rparr>"
| "patch AnalysisError msg = msg\<lparr>msg_text := analysisErrorText, isThinking := Some False\<rparr>"
| "patch (Completion t g th) msg =
     msg\<lparr>msg_text := t, isThinking := Some False, msg_groundingSources := Some g,
         thumbnailUrl := th\<rparr>"
| "patch ChatError msg = msg\<lparr>msg_text := chatErrorText, isThinking := Some False\<rparr>"


lemma patch_id [simp]: "msg_id (patch u msg) = msg_id msg"
  by (cases u) simp_all

lemma patch_frame [simp]:
  "msg_role (patch u msg) = msg_role msg" "msg_timestamp (patch u msg) = msg_timestamp msg"
  "videoTitle (patch u msg) = videoTitle msg"
  by (cases u; simp)+

lemma patch_text_last [simp]:
  "msg_text (patch u2 (patch u1 msg)) = msg_text (patch u2 msg)"
  "isThinking (patch u2 (patch u1 msg)) = isThinking (patch u2 msg)"
  by (cases u2; simp)+





text \<open>The messages after \<^verbatim>\<open>handleStartAnalysis\<close> are these updates, applied in order.\<close>

lemma handleStartAnalysis_updates:
  assumes "base64Data (videoState st) = Some b64" "b64 \<noteq> []" "vs_mimeType (videoState st) \<noteq> []"
    and "generateVideoCommentary api js b64 (vs_mimeType (videoState st)) (selectedStyle st)
           (enableSearch st) (orZero (map_option duration vref)) = (calls, result)"
  shows "messages (handleStartAnalysis api js now stamp vref st) =
     foldl (\<lambda>prev u. applyUpdate (showNat now) u prev)
       (messages st @ [placeholder (showNat now) stamp])
       (map (\<lambda>(t, g). Stream t g) calls @ (case result of Inl e \<Rightarrow> [AnalysisError] | Inr t \<Rightarrow> []))"
proof -
  have f: "foldl (\<lambda>prev (t, g). streamUpdate pid t g prev) ms cs
         = foldl (\<lambda>prev u. applyUpdate pid u prev) ms (map (\<lambda>(t, g). Stream t g) cs)"
    for pid ms cs
    by (induction cs arbitrary: ms) (simp_all add: case_prod_beta)
  show ?thesis
    using assms by (simp add: handleStartAnalysis_def Let_def f split: sum.splits)
qed



section \<open>Properties of handleSendMessage\<close>

lemma completionUpdate_last:
  "last (completionUpdate pid t g th (ms @ [u, placeholder pid stamp]))
     = (placeholder pid stamp)\<lparr>msg_text := t, isThinking := Some False,
          msg_groundingSources := Some g, thumbnailUrl := th\<rparr>"
  by (simp add: completionUpdate_def placeholder_def)

text \<open>
  C8. Let the input be non-blank, no request be in progress, and the follow-up response carry
  a thumbnail call. When \<^verbatim>\<open>captureCurrentFrame\<close> gives a non-empty frame, the image
  generation is called once, with that frame and the prompt of the call; the url it returns
  is stored on the bot message, whose text is the response text, and when it throws, the
  bot message has no url and the failure note after its text. When no frame is captured,
  the image generation is not called and the note about the missing frame is appended. The
  bot message is the last of the list and carries the placeholder's id.
\<close>

theorem handleSendMessage_thumbnail:
  assumes guard: "trim (inputText st) \<noteq> []" "\<not> isProcessing st"
    and resp: "followUp (messages st) (inputText st) (enableSearch st)
                 (base64Data (videoState st)) (vs_mimeType (videoState st))
                 (orZero (map_option duration (videoRef env))) = Inr response"
    and tc: "thumbnailCall response = Some tc"
  shows
    "(captureCurrentFrame (videoRef env) (hasContext env) (toDataURL env) = Some frame
        \<and> frame \<noteq> [] \<longrightarrow>
        snd (handleSendMessage followUp generateImage env st) = [(frame, visualPrompt tc)]
        \<and> (\<forall>url. generateImage frame (visualPrompt tc) = Inr url \<longrightarrow>
              thumbnailUrl (last (messages (fst (handleSendMessage followUp generateImage env st))))
                = Some url
              \<and> msg_text (last (messages (fst (handleSendMessage followUp generateImage env st))))
                = fr_text response)
        \<and> (\<forall>e. generateImage frame (visualPrompt tc) = Inl e \<longrightarrow>
              thumbnailUrl (last (messages (fst (handleSendMessage followUp generateImage env st))))
                = None
              \<and> msg_text (last (messages (fst (handleSendMessage followUp generateImage env st))))
                = fr_text response @ coverFailedNote))
     \<and> (\<not> truthy (captureCurrentFrame (videoRef env) (hasContext env) (toDataURL env)) \<longrightarrow>
        snd (handleSendMessage followUp generateImage env st) = []
        \<and> thumbnailUrl (last (messages (fst (handleSendMessage followUp generateImage env st))))
            = None
        \<and> msg_text (last (messages (fst (handleSendMessage followUp generateImage env st))))
            = fr_text response @ noFrameNote)
     \<and> msg_id (last (messages (fst (handleSendMessage followUp generateImage env st))))
         = showNat (nowBot env + 1)
     \<and> msg_role (last (messages (fst (handleSendMessage followUp generateImage env st)))) = Model"
  using guard resp tc
  by (auto simp: handleSendMessage_def Let_def completionUpdate_last truthy_def
      split: option.splits sum.splits)
    (simp_all add: placeholder_def)

theorem handleSendMessage_thumbnail_witness:
  "trim (ascii ''make a cover'') \<noteq> []
   \<and> captureCurrentFrame (Some \<lparr>videoWidth = 720, videoHeight = 1280, duration = Fin 10\<rparr>) True
        (\<lambda>_. ascii ''data:image/jpeg;base64,ZnJhbWU='') = Some (ascii ''ZnJhbWU='')
   \<and> snd (handleSendMessage
        (\<lambda>_ _ _ _ _ _. Inr \<lparr>fr_text = ascii ''ok'', fr_groundingSources = [],
           thumbnailCall = Some \<lparr>visualPrompt = Some (ascii ''a smash'')\<rparr>\<rparr>)
        (\<lambda>_ _. Inr (ascii ''data:image/png;base64,QUJD''))
        \<lparr>nowUser = 1000, stampUser = 1000, nowBot = 1000, stampBot = 1000,
         videoRef = Some \<lparr>videoWidth = 720, videoHeight = 1280, duration = Fin 10\<rparr>,
         hasContext = True, toDataURL = (\<lambda>_. ascii ''data:image/jpeg;base64,ZnJhbWU='')\<rparr>
        \<lparr>videoState = \<lparr>vs_file = None, previewUrl = None, base64Data = Some (ascii ''QUJD''),
           vs_mimeType = ascii ''video/mp4''\<rparr>,
         selectedStyle = PROFESSIONAL, messages = [], inputText = ascii ''make a cover'',
         isProcessing = False, enableSearch = False, hasStartedAnalysis = True\<rparr>)
     = [(ascii ''ZnJhbWU='', Some (ascii ''a smash''))]
   \<and> thumbnailUrl (last (messages (fst (handleSendMessage
        (\<lambda>_ _ _ _ _ _. Inr \<lparr>fr_text = ascii ''ok'', fr_groundingSources = [],
           thumbnailCall = Some \<lparr>visualPrompt = Some (ascii ''a smash'')\<rparr>\<rparr>)
        (\<lambda>_ _. Inr (ascii ''data:image/png;base64,QUJD''))
        \<lparr>nowUser = 1000, stampUser = 1000, nowBot = 1000, stampBot = 1000,
         videoRef = Some \<lparr>videoWidth = 720, videoHeight = 1280, duration = Fin 10\<rparr>,
         hasContext = True, toDataURL = (\<lambda>_. ascii ''data:image/jpeg;base64,ZnJhbWU='')\<rparr>
        \<lparr>videoState = \<lparr>vs_file = None, previewUrl = None, base64Data = Some (ascii ''QUJD''),
           vs_mimeType = ascii ''video/mp4''\<rparr>,
         selectedStyle = PROFESSIONAL, messages = [], inputText = ascii ''make a cover'',
         isProcessing = False, enableSearch = False, hasStartedAnalysis = True\<rparr>))))
     = Some (ascii ''data:image/png;base64,QUJD'')"
  using handleSendMessage_thumbnail
    [of "\<lparr>videoState = \<lparr>vs_file = None, previewUrl = None, base64Data = Some (ascii ''QUJD''),
           vs_mimeType = ascii ''video/mp4''\<rparr>,
         selectedStyle = PROFESSIONAL, messages = [], inputText = ascii ''make a cover'',
         isProcessing = False, enableSearch = False, hasStartedAnalysis = True\<rparr>"
      "\<lambda>_ _ _ _ _ _. Inr \<lparr>fr_text = ascii ''ok'', fr_groundingSources = [],
           thumbnailCall = Some \<lparr>visualPrompt = Some (ascii ''a smash'')\<rparr>\<rparr>"
      "\<lparr>nowUser = 1000, stampUser = 1000, nowBot = 1000, stampBot = 1000,
         videoRef = Some \<lparr>videoWidth = 720, videoHeight = 1280, duration = Fin 10\<rparr>,
         hasContext = True, toDataURL = (\<lambda>_. ascii ''data:image/jpeg;base64,ZnJhbWU='')\<rparr>"
      "\<lparr>fr_text = ascii ''ok'', fr_groundingSources = [],
           thumbnailCall = Some \<lparr>visualPrompt = Some (ascii ''a smash'')\<rparr>\<rparr>"
      "\<lparr>visualPrompt = Some (ascii ''a smash'')\<rparr>"
      "ascii ''ZnJhbWU=''"
      "\<lambda>_ _. Inr (ascii ''data:image/png;base64,QUJD'')"]
  by (simp add: trim_def isWhiteSpace_def captureCurrentFrame_def at_index_def ascii_def)

section \<open>Properties of processFile\<close>

lemma split_js_no_sep: "sep \<notin> set s \<Longrightarrow> split_js sep s = [s]"
  by (induction s) auto

lemma split_js_first: "sep \<notin> set p \<Longrightarrow> split_js sep (p @ sep # rest) = p # split_js sep rest"
  by (induction p) auto

lemma dataUrl_field:
  assumes "44 \<notin> set ty" "44 \<notin> set b64"
  shows "at_index (split_js 44 (ascii ''data:'' @ ty @ ascii '';base64,'' @ b64)) 1 = Some b64"
proof -
  have e: "ascii ''data:'' @ ty @ ascii '';base64,'' @ b64
         = (ascii ''data:'' @ ty @ ascii '';base64'') @ 44 # b64"
    by (simp add: ascii_def)
  have n: "44 \<notin> set (ascii ''data:'' @ ty @ ascii '';base64'')"
    using assms(1) by (simp add: ascii_def)
  show ?thesis
    unfolding e split_js_first[OF n] split_js_no_sep[OF assms(2)]
    by (simp add: at_index_def)
qed

text \<open>The validation of lines 28 to 37 lets the file through.\<close>

definition accepted :: "File \<Rightarrow> bool" where
  "accepted f = (startsWith (file_type f) (ascii ''video/'') \<and> file_size f \<le> 20 * 1024 * 1024)"

text \<open>
  C4, as amended. A file is accepted (loading starts) exactly when its type starts with
  \<^verbatim>\<open>video/\<close> and its size is at most 20 * 1024 * 1024. A rejected file gets one alert,
  no loading and no call of \<^verbatim>\<open>onVideoSelected\<close>. An accepted file whose read succeeds
  is passed on once, with its preview url, its type and the second comma-separated field of
  the data url, which is the base64 encoding when neither the type nor the encoding has a
  comma. An accepted file whose read fails gets the error alert and is not passed on.
\<close>

theorem processFile_outcomes:
  "(loadingCalls (processFile readAsDataURL createObjectURL f) \<noteq> [] \<longleftrightarrow> accepted f)
   \<and> (\<not> accepted f \<longrightarrow>
        loadingCalls (processFile readAsDataURL createObjectURL f) = []
        \<and> selected (processFile readAsDataURL createObjectURL f) = []
        \<and> length (alerts (processFile readAsDataURL createObjectURL f)) = 1)
   \<and> (accepted f \<and> readAsDataURL f = Inr url \<longrightarrow>
        selected (processFile readAsDataURL createObjectURL f) =
          [\<lparr>vs_file = Some f, previewUrl = Some (createObjectURL f),
            base64Data = at_index (split_js 44 url) 1, vs_mimeType = file_type f\<rparr>]
        \<and> alerts (processFile readAsDataURL createObjectURL f) = [])
   \<and> (accepted f
        \<and> readAsDataURL f = Inr (ascii ''data:'' @ file_type f @ ascii '';base64,'' @ b64)
        \<and> 44 \<notin> set (file_type f) \<and> 44 \<notin> set b64 \<longrightarrow>
        selected (processFile readAsDataURL createObjectURL f) =
          [\<lparr>vs_file = Some f, previewUrl = Some (createObjectURL f),
            base64Data = Some b64, vs_mimeType = file_type f\<rparr>])
   \<and> (accepted f \<and> readAsDataURL f = Inl e \<longrightarrow>
        selected (processFile readAsDataURL createObjectURL f) = []
        \<and> alerts (processFile readAsDataURL createObjectURL f) = [processingErrorAlert])"
proof -
  have r: "processFile readAsDataURL createObjectURL f =
        (if \<not> startsWith (file_type f) (ascii ''video/'')
         then \<lparr>alerts = [invalidVideoAlert], loadingCalls = [], selected = []\<rparr>
         else \<lparr>alerts = [tooLargeAlert], loadingCalls = [], selected = []\<rparr>)"
    if "\<not> accepted f"
    using that by (auto simp: processFile_def accepted_def)
  have a: "processFile readAsDataURL createObjectURL f =
        (case readAsDataURL f of
           Inr url \<Rightarrow>
             \<lparr>alerts = [], loadingCalls = [True, False],
              selected = [\<lparr>vs_file = Some f, previewUrl = Some (createObjectURL f),
                           base64Data = at_index (split_js 44 url) 1,
                           vs_mimeType = file_type f\<rparr>]\<rparr>
         | Inl e \<Rightarrow>
             \<lparr>alerts = [processingErrorAlert], loadingCalls = [True, False], selected = []\<rparr>)"
    if "accepted f"
    using that
    by (auto simp: processFile_def accepted_def fileToGenerativePart_def split: sum.splits)
  have 1: "loadingCalls (processFile readAsDataURL createObjectURL f) \<noteq> [] \<longleftrightarrow> accepted f"
    by (cases "accepted f") (auto simp: r a split: sum.splits)
  have 2: "\<not> accepted f \<longrightarrow>
        loadingCalls (processFile readAsDataURL createObjectURL f) = []
        \<and> selected (processFile readAsDataURL createObjectURL f) = []
        \<and> length (alerts (processFile readAsDataURL createObjectURL f)) = 1"
    by (auto simp: r)
  have 3: "accepted f \<and> readAsDataURL f = Inr url \<longrightarrow>
        selected (processFile readAsDataURL createObjectURL f) =
          [\<lparr>vs_file = Some f, previewUrl = Some (createObjectURL f),
            base64Data = at_index (split_js 44 url) 1, vs_mimeType = file_type f\<rparr>]
        \<and> alerts (processFile readAsDataURL createObjectURL f) = []" for url
    by (auto simp: a)
  have 4: "accepted f
        \<and> readAsDataURL f = Inr (ascii ''data:'' @ file_type f @ ascii '';base64,'' @ b64)
        \<and> 44 \<notin> set (file_type f) \<and> 44 \<notin> set b64 \<longrightarrow>
        selected (processFile readAsDataURL createObjectURL f) =
          [\<lparr>vs_file = Some f, previewUrl = Some (createObjectURL f),
            base64Data = Some b64, vs_mimeType = file_type f\<rparr>]"
    using 3[of "ascii ''data:'' @ file_type f @ ascii '';base64,'' @ b64"]
      dataUrl_field[of "file_type f" b64]
    by auto
  have 5: "accepted f \<and> readAsDataURL f = Inl e \<longrightarrow>
        selected (processFile readAsDataURL createObjectURL f) = []
        \<and> alerts (processFile readAsDataURL createObjectURL f) = [processingErrorAlert]"
    by (auto simp: a)
  show ?thesis using 1 2 3[of url] 4 5 by blast
qed

theorem processFile_outcomes_witness:
  "accepted \<lparr>file_type = ascii ''video/mp4'', file_size = 1024\<rparr>
   \<and> 44 \<notin> set (ascii ''video/mp4'') \<and> 44 \<notin> set (ascii ''QUJD'')
   \<and> selected (processFile
        (\<lambda>f. Inr (ascii ''data:'' @ file_type f @ ascii '';base64,'' @ ascii ''QUJD''))
        (\<lambda>_. ascii ''blob:1'') \<lparr>file_type = ascii ''video/mp4'', file_size = 1024\<rparr>)
     = [\<lparr>vs_file = Some \<lparr>file_type = ascii ''video/mp4'', file_size = 1024\<rparr>,
         previewUrl = Some (ascii ''blob:1''), base64Data = Some (ascii ''QUJD''),
         vs_mimeType = ascii ''video/mp4''\<rparr>]
   \<and> \<not> accepted \<lparr>file_type = ascii ''image/png'', file_size = 1024\<rparr>
   \<and> selected (processFile (\<lambda>_. Inl ReadError) (\<lambda>_. ascii ''blob:1'')
        \<lparr>file_type = ascii ''image/png'', file_size = 1024\<rparr>) = []"
  using processFile_outcomes
    [of "\<lambda>f. Inr (ascii ''data:'' @ file_type f @ ascii '';base64,'' @ ascii ''QUJD'')"
      "\<lambda>_. ascii ''blob:1''" "\<lparr>file_type = ascii ''video/mp4'', file_size = 1024\<rparr>"
      "ascii ''data:video/mp4;base64,QUJD''" "ascii ''QUJD''" ReadError]
    processFile_outcomes
    [of "\<lambda>_. Inl ReadError" "\<lambda>_. ascii ''blob:1''"
      "\<lparr>file_type = ascii ''image/png'', file_size = 1024\<rparr>"
      "[]" "[]" ReadError]
  by (simp add: accepted_def startsWith_def ascii_def processFile_def fileToGenerativePart_def
      at_index_def)

text \<open>
  C4, as stated, fails for an accepted file that cannot be read: lines 50 to 52 catch the
  rejection, and no state is passed to \<^verbatim>\<open>onVideoSelected\<close>.
\<close>

theorem processFile_read_failure:
  "accepted \<lparr>file_type = ascii ''video/mp4'', file_size = 1024\<rparr>
   \<and> selected (processFile (\<lambda>_. Inl ReadError) (\<lambda>_. ascii ''blob:1'')
        \<lparr>file_type = ascii ''video/mp4'', file_size = 1024\<rparr>) = []
   \<and> alerts (processFile (\<lambda>_. Inl ReadError) (\<lambda>_. ascii ''blob:1'')
        \<lparr>file_type = ascii ''video/mp4'', file_size = 1024\<rparr>) = [processingErrorAlert]
   \<and> loadingCalls (processFile (\<lambda>_. Inl ReadError) (\<lambda>_. ascii ''blob:1'')
        \<lparr>file_type = ascii ''video/mp4'', file_size = 1024\<rparr>) = [True, False]"
  by (simp add: processFile_def fileToGenerativePart_def accepted_def startsWith_def ascii_def)

end
